theory Spec2Isabelle
  imports Complex_Main
begin

section \<open>Vectors and matrices of the math library\<close>

text \<open>
  The scene manager builds its model matrix with the math library's \<open>vec3\<close>, \<open>vec4\<close> and
  \<open>mat4\<close>. A \<open>mat4\<close> is stored by columns: \<open>m[i]\<close> is the i-th column, a \<open>vec4\<close>.
  The library's \<open>float\<close> is idealised as \<open>real\<close>: rounding is not modelled.
\<close>

type_synonym vec2 = "real \<times> real"
type_synonym vec3 = "real \<times> real \<times> real"
type_synonym vec4 = "real \<times> real \<times> real \<times> real"
type_synonym mat4 = "vec4 \<times> vec4 \<times> vec4 \<times> vec4"

fun vec4_scale :: "vec4 \<Rightarrow> real \<Rightarrow> vec4" where
  "vec4_scale (x, y, z, w) s = (x * s, y * s, z * s, w * s)"

fun vec4_add :: "vec4 \<Rightarrow> vec4 \<Rightarrow> vec4" where
  "vec4_add (x, y, z, w) (x', y', z', w') = (x + x', y + y', z + z', w + w')"

definition mat4_identity :: mat4 where
  "mat4_identity = ((1, 0, 0, 0), (0, 1, 0, 0), (0, 0, 1, 0), (0, 0, 0, 1))"

text \<open>\<open>m * v\<close>: the linear combination of the columns of \<open>m\<close> with the components of \<open>v\<close>.\<close>

fun mat4_mul_vec4 :: "mat4 \<Rightarrow> vec4 \<Rightarrow> vec4" where
  "mat4_mul_vec4 (c0, c1, c2, c3) (x, y, z, w) =
     vec4_add (vec4_add (vec4_add (vec4_scale c0 x) (vec4_scale c1 y)) (vec4_scale c2 z))
       (vec4_scale c3 w)"

text \<open>\<open>m1 * m2\<close>: column i of the product is \<open>m1\<close> applied to column i of \<open>m2\<close>.\<close>

fun mat4_mul :: "mat4 \<Rightarrow> mat4 \<Rightarrow> mat4" where
  "mat4_mul m1 (d0, d1, d2, d3) =
     (mat4_mul_vec4 m1 d0, mat4_mul_vec4 m1 d1, mat4_mul_vec4 m1 d2, mat4_mul_vec4 m1 d3)"

definition glm_radians :: "real \<Rightarrow> real" where
  "glm_radians degrees = degrees * (pi / 180)"

text \<open>\<open>glm::scale(v)\<close>: the identity with its first three columns scaled.\<close>

fun glm_scale :: "vec3 \<Rightarrow> mat4" where
  "glm_scale (x, y, z) =
     (case mat4_identity of (m0, m1, m2, m3) \<Rightarrow>
        (vec4_scale m0 x, vec4_scale m1 y, vec4_scale m2 z, m3))"

text \<open>\<open>glm::translate(v)\<close>: the identity whose last column is \<open>m0*x + m1*y + m2*z + m3\<close>.\<close>

fun glm_translate :: "vec3 \<Rightarrow> mat4" where
  "glm_translate (x, y, z) =
     (case mat4_identity of (m0, m1, m2, m3) \<Rightarrow>
        (m0, m1, m2,
         vec4_add (vec4_add (vec4_add (vec4_scale m0 x) (vec4_scale m1 y)) (vec4_scale m2 z)) m3))"

fun glm_normalize :: "vec3 \<Rightarrow> vec3" where
  "glm_normalize (x, y, z) =
     (let n = sqrt (x * x + y * y + z * z) in (x / n, y / n, z / n))"

text \<open>
  \<open>glm::rotate(angle, axis)\<close>: the rotation by \<open>angle\<close> radians about the normalised axis,
  applied to the identity matrix.
\<close>

fun glm_rotate :: "real \<Rightarrow> vec3 \<Rightarrow> mat4" where
  "glm_rotate angle v =
     (let c = cos angle; s = sin angle in
      case glm_normalize v of (ax, ay, az) \<Rightarrow>
        let tx = (1 - c) * ax; ty = (1 - c) * ay; tz = (1 - c) * az;
            r00 = c + tx * ax; r01 = tx * ay + s * az; r02 = tx * az - s * ay;
            r10 = ty * ax - s * az; r11 = c + ty * ay; r12 = ty * az + s * ax;
            r20 = tz * ax + s * ay; r21 = tz * ay - s * ax; r22 = c + tz * az
        in case mat4_identity of (m0, m1, m2, m3) \<Rightarrow>
          (vec4_add (vec4_add (vec4_scale m0 r00) (vec4_scale m1 r01)) (vec4_scale m2 r02),
           vec4_add (vec4_add (vec4_scale m0 r10) (vec4_scale m1 r11)) (vec4_scale m2 r12),
           vec4_add (vec4_add (vec4_scale m0 r20) (vec4_scale m1 r21)) (vec4_scale m2 r22),
           m3))"

section \<open>Shader uniforms and the scene manager's state\<close>

datatype uniform =
    UInt int
  | UBool bool
  | UFloat real
  | UVec2 vec2
  | UVec3 vec3
  | UVec4 vec4
  | UMat4 mat4
  | USampler2D int

text \<open>
  Modelled from the spec: the shader manager's source is not under src/. The spec gives its
  interface as named-uniform setters for a 4x4 matrix, 2-, 3- and 4-component vectors,
  float, int and bool, the only way the scene manager affects rendering. The shader
  manager is the store of the uniforms' current values, and a setter writes one of them.
\<close>

type_synonym ShaderManager = "string \<rightharpoonup> uniform"

definition setMat4Value :: "string \<Rightarrow> mat4 \<Rightarrow> ShaderManager \<Rightarrow> ShaderManager" where
  "setMat4Value name v sh = sh(name \<mapsto> UMat4 v)"

definition setIntValue :: "string \<Rightarrow> int \<Rightarrow> ShaderManager \<Rightarrow> ShaderManager" where
  "setIntValue name v sh = sh(name \<mapsto> UInt v)"

definition setBoolValue :: "string \<Rightarrow> bool \<Rightarrow> ShaderManager \<Rightarrow> ShaderManager" where
  "setBoolValue name v sh = sh(name \<mapsto> UBool v)"

definition setFloatValue :: "string \<Rightarrow> real \<Rightarrow> ShaderManager \<Rightarrow> ShaderManager" where
  "setFloatValue name v sh = sh(name \<mapsto> UFloat v)"

definition setVec2Value :: "string \<Rightarrow> vec2 \<Rightarrow> ShaderManager \<Rightarrow> ShaderManager" where
  "setVec2Value name v sh = sh(name \<mapsto> UVec2 v)"

definition setVec3Value :: "string \<Rightarrow> vec3 \<Rightarrow> ShaderManager \<Rightarrow> ShaderManager" where
  "setVec3Value name v sh = sh(name \<mapsto> UVec3 v)"

definition setVec4Value :: "string \<Rightarrow> vec4 \<Rightarrow> ShaderManager \<Rightarrow> ShaderManager" where
  "setVec4Value name v sh = sh(name \<mapsto> UVec4 v)"

definition setSampler2DValue :: "string \<Rightarrow> int \<Rightarrow> ShaderManager \<Rightarrow> ShaderManager" where
  "setSampler2DValue name v sh = sh(name \<mapsto> USampler2D v)"

definition g_ModelName :: string where "g_ModelName = ''model''"
definition g_ColorValueName :: string where "g_ColorValueName = ''objectColor''"
definition g_TextureValueName :: string where "g_TextureValueName = ''objectTexture''"
definition g_UseTextureName :: string where "g_UseTextureName = ''bUseTexture''"
definition g_UseLightingName :: string where "g_UseLightingName = ''bUseLighting''"

text \<open>
  The two entry types of the registries, with the fields that the code reads and writes
  (the structs are declared in the class header). Both name their string field \<open>tag\<close>;
  the material's is \<open>materialTag\<close> here, since record fields share one name space.
\<close>

record TEXTURE_INFO =
  ID :: nat
  tag :: string

record OBJECT_MATERIAL =
  diffuseColor :: vec3
  specularColor :: vec3
  shininess :: real
  materialTag :: string

text \<open>What the code can do that C++ leaves undefined; the model returns it as a value.\<close>

datatype fault = NullPointerDereference | ArrayIndexOutOfBounds

section \<open>The graphics context: texture objects\<close>

text \<open>
  The part of the graphics library's context that the texture registry touches: the texture
  names handed out so far, the texture objects behind them, the active texture unit and
  the 2D texture bound on each unit. Nothing in the scene manager deletes a texture name.
\<close>

datatype wrap_mode = GL_REPEAT | GL_CLAMP_TO_EDGE
datatype filter_mode = GL_NEAREST | GL_LINEAR | GL_NEAREST_MIPMAP_LINEAR
datatype internal_format = GL_RGB8 | GL_RGBA8

record image =
  width :: int
  height :: int
  colorChannels :: int

record texture_object =
  wrap_s :: wrap_mode
  wrap_t :: wrap_mode
  min_filter :: filter_mode
  mag_filter :: filter_mode
  storage :: "(internal_format \<times> int \<times> int) option"
  mipmaps :: bool

definition new_texture_object :: texture_object where
  "new_texture_object =
     \<lparr>wrap_s = GL_REPEAT, wrap_t = GL_REPEAT, min_filter = GL_NEAREST_MIPMAP_LINEAR,
      mag_filter = GL_LINEAR, storage = None, mipmaps = False\<rparr>"

record gl_context =
  texture_names :: "nat list"
  texture_objects :: "nat \<rightharpoonup> texture_object"
  active_texture :: nat
  texture_binding_2d :: "nat \<Rightarrow> nat"
  unpack_alignment :: int

text \<open>\<open>glGenTextures(1, &id)\<close>: a name that is not in use (never 0), now in use.\<close>

definition glGenTextures :: "gl_context \<Rightarrow> nat \<times> gl_context" where
  "glGenTextures g =
     (let n = Suc (fold max (texture_names g) 0)
      in (n, g\<lparr>texture_names := n # texture_names g\<rparr>))"

text \<open>
  \<open>glBindTexture(GL_TEXTURE_2D, id)\<close>: binds on the active unit; the first bind of a name
  creates its texture object.
\<close>

definition glBindTexture :: "nat \<Rightarrow> gl_context \<Rightarrow> gl_context" where
  "glBindTexture n g =
     g\<lparr>texture_binding_2d := (texture_binding_2d g)(active_texture g := n),
       texture_objects :=
         (if n \<noteq> 0 \<and> texture_objects g n = None
          then (texture_objects g)(n \<mapsto> new_texture_object) else texture_objects g)\<rparr>"

definition glActiveTexture :: "nat \<Rightarrow> gl_context \<Rightarrow> gl_context" where
  "glActiveTexture unit g = g\<lparr>active_texture := unit\<rparr>"

text \<open>An update of the texture object bound to the active unit (none when 0 is bound).\<close>

definition update_bound_texture ::
  "(texture_object \<Rightarrow> texture_object) \<Rightarrow> gl_context \<Rightarrow> gl_context" where
  "update_bound_texture f g =
     (let n = texture_binding_2d g (active_texture g) in
      case texture_objects g n of
        None \<Rightarrow> g
      | Some t \<Rightarrow> g\<lparr>texture_objects := (texture_objects g)(n \<mapsto> f t)\<rparr>)"

definition glTexImage2D :: "internal_format \<Rightarrow> int \<Rightarrow> int \<Rightarrow> gl_context \<Rightarrow> gl_context" where
  "glTexImage2D fmt w h g = update_bound_texture (\<lambda>t. t\<lparr>storage := Some (fmt, w, h)\<rparr>) g"

definition glGenerateMipmap :: "gl_context \<Rightarrow> gl_context" where
  "glGenerateMipmap g = update_bound_texture (\<lambda>t. t\<lparr>mipmaps := True\<rparr>) g"

definition glPixelStorei_UNPACK_ALIGNMENT :: "int \<Rightarrow> gl_context \<Rightarrow> gl_context" where
  "glPixelStorei_UNPACK_ALIGNMENT a g = g\<lparr>unpack_alignment := a\<rparr>"

section \<open>The scene manager\<close>

text \<open>
  \<open>m_pShaderManager\<close> is a pointer: \<open>None\<close> is the null pointer. \<open>m_textureIDs\<close> is a
  fixed array, its capacity the length of the list; \<open>m_loadedTextures\<close> counts the entries
  in use. \<open>m_objectMaterials\<close> is a growable vector.
\<close>

record SceneManager =
  m_pShaderManager :: "ShaderManager option"
  m_textureIDs :: "TEXTURE_INFO list"
  m_loadedTextures :: nat
  m_objectMaterials :: "OBJECT_MATERIAL list"
  gl :: gl_context

subsection \<open>Texture registry\<close>

text \<open>
  \<open>CreateGLTexture(filename, tag)\<close>. The image decoder is an external library:
  \<open>stbi_load\<close> gives the decoded image of a file name (its size and channel count; the
  pixels play no part), or \<open>None\<close> for the null pointer it returns on failure.
  The result is the returned boolean and the state; a store past the end of
  \<open>m_textureIDs\<close> is a fault. \<open>CreateGLTexture_register\<close> is the function's tail,
  from the mipmaps to \<open>return true\<close>, which both supported formats reach.
\<close>

definition CreateGLTexture_register ::
  "nat \<Rightarrow> string \<Rightarrow> gl_context \<Rightarrow> SceneManager \<Rightarrow> fault + (bool \<times> SceneManager)" where
  "CreateGLTexture_register textureID tag' g s =
     (let g1 = glGenerateMipmap g;
          g2 = glBindTexture 0 g1
      in if m_loadedTextures s < length (m_textureIDs s) then
           Inr (True,
                s\<lparr>m_textureIDs :=
                     (m_textureIDs s)[m_loadedTextures s := \<lparr>ID = textureID, tag = tag'\<rparr>],
                  m_loadedTextures := m_loadedTextures s + 1,
                  gl := g2\<rparr>)
         else Inl ArrayIndexOutOfBounds)"

definition CreateGLTexture ::
  "(string \<Rightarrow> image option) \<Rightarrow> string \<Rightarrow> string \<Rightarrow> SceneManager \<Rightarrow> fault + (bool \<times> SceneManager)" where
  "CreateGLTexture stbi_load filename tag' s =
     (case stbi_load filename of
        Some img \<Rightarrow>
          (case glGenTextures (gl s) of (textureID, g1) \<Rightarrow>
             let g2 = glBindTexture textureID g1;
                 g3 = update_bound_texture (\<lambda>t. t\<lparr>wrap_s := GL_REPEAT\<rparr>) g2;
                 g4 = update_bound_texture (\<lambda>t. t\<lparr>wrap_t := GL_REPEAT\<rparr>) g3;
                 g5 = update_bound_texture (\<lambda>t. t\<lparr>min_filter := GL_LINEAR\<rparr>) g4;
                 g6 = update_bound_texture (\<lambda>t. t\<lparr>mag_filter := GL_LINEAR\<rparr>) g5
             in
               if colorChannels img = 3 then
                 CreateGLTexture_register textureID tag'
                   (glTexImage2D GL_RGB8 (width img) (height img) g6) s
               else if colorChannels img = 4 then
                 CreateGLTexture_register textureID tag'
                   (glTexImage2D GL_RGBA8 (width img) (height img) g6) s
               else Inr (False, s\<lparr>gl := g6\<rparr>))
      | None \<Rightarrow> Inr (False, s))"

text \<open>\<open>BindGLTextures()\<close>: texture i goes to texture unit i, for i below the count.\<close>

function BindGLTextures_loop :: "nat \<Rightarrow> SceneManager \<Rightarrow> fault + SceneManager" where
  "BindGLTextures_loop i s =
     (if i < m_loadedTextures s then
        (if i < length (m_textureIDs s) then
           BindGLTextures_loop (i + 1)
             (s\<lparr>gl := glBindTexture (ID (m_textureIDs s ! i)) (glActiveTexture i (gl s))\<rparr>)
         else Inl ArrayIndexOutOfBounds)
      else Inr s)"
  by pat_completeness auto
termination
  by (relation "measure (\<lambda>(i, s). m_loadedTextures s - i)") auto

declare BindGLTextures_loop.simps [simp del]

definition BindGLTextures :: "SceneManager \<Rightarrow> fault + SceneManager" where
  "BindGLTextures s = BindGLTextures_loop 0 s"

text \<open>
  \<open>DestroyGLTextures()\<close>: for every entry in use, \<open>glGenTextures(1, &m_textureIDs[i].ID)\<close>.
  The count \<open>m_loadedTextures\<close> is not written.
\<close>

function DestroyGLTextures_loop :: "nat \<Rightarrow> SceneManager \<Rightarrow> fault + SceneManager" where
  "DestroyGLTextures_loop i s =
     (if i < m_loadedTextures s then
        (if i < length (m_textureIDs s) then
           (case glGenTextures (gl s) of (n, g) \<Rightarrow>
              DestroyGLTextures_loop (i + 1)
                (s\<lparr>m_textureIDs := (m_textureIDs s)[i := (m_textureIDs s ! i)\<lparr>ID := n\<rparr>],
                   gl := g\<rparr>))
         else Inl ArrayIndexOutOfBounds)
      else Inr s)"
  by pat_completeness auto
termination
  by (relation "measure (\<lambda>(i, s). m_loadedTextures s - i)") (auto simp: glGenTextures_def Let_def)

declare DestroyGLTextures_loop.simps [simp del]

definition DestroyGLTextures :: "SceneManager \<Rightarrow> fault + SceneManager" where
  "DestroyGLTextures s = DestroyGLTextures_loop 0 s"

text \<open>
  \<open>FindTextureSlot(tag)\<close>: the while loop over \<open>index\<close>, \<open>bFound\<close> and \<open>textureSlot\<close>;
  a read past the end of the array is a fault.
\<close>

function FindTextureSlot_loop ::
  "TEXTURE_INFO list \<Rightarrow> nat \<Rightarrow> string \<Rightarrow> nat \<Rightarrow> bool \<Rightarrow> int \<Rightarrow> fault + int" where
  "FindTextureSlot_loop textureIDs loadedTextures tag' index bFound textureSlot =
     (if index < loadedTextures \<and> bFound = False then
        (if index < length textureIDs then
           (if tag (textureIDs ! index) = tag'
            then FindTextureSlot_loop textureIDs loadedTextures tag' index True (int index)
            else FindTextureSlot_loop textureIDs loadedTextures tag' (index + 1) bFound textureSlot)
         else Inl ArrayIndexOutOfBounds)
      else Inr textureSlot)"
  by pat_completeness auto
termination
  by (relation "measure (\<lambda>(textureIDs, loadedTextures, t, index, bFound, slot).
        (loadedTextures - index) + (if bFound then 0 else 1))") auto

declare FindTextureSlot_loop.simps [simp del]

definition FindTextureSlot :: "string \<Rightarrow> SceneManager \<Rightarrow> fault + int" where
  "FindTextureSlot tag' s =
     FindTextureSlot_loop (m_textureIDs s) (m_loadedTextures s) tag' 0 False (- 1)"

subsection \<open>Material registry\<close>

text \<open>
  \<open>FindMaterial(tag, material)\<close>: \<open>material\<close> is an output parameter, so the model takes
  its content before the call and returns the boolean with its content after the call.
  Only the two colours and the shininess are copied.
\<close>

function FindMaterial_loop ::
  "OBJECT_MATERIAL list \<Rightarrow> string \<Rightarrow> nat \<Rightarrow> bool \<Rightarrow> OBJECT_MATERIAL \<Rightarrow> bool \<times> OBJECT_MATERIAL" where
  "FindMaterial_loop mats tag' index bFound material =
     (if index < length mats \<and> bFound = False then
        (if materialTag (mats ! index) = tag'
         then FindMaterial_loop mats tag' index True
                (material\<lparr>diffuseColor := diffuseColor (mats ! index),
                           specularColor := specularColor (mats ! index),
                           shininess := shininess (mats ! index)\<rparr>)
         else FindMaterial_loop mats tag' (index + 1) bFound material)
      else (bFound, material))"
  by pat_completeness auto
termination
  by (relation "measure (\<lambda>(mats, t, index, bFound, m).
        (length mats - index) + (if bFound then 0 else 1))") auto

declare FindMaterial_loop.simps [simp del]

definition FindMaterial :: "string \<Rightarrow> OBJECT_MATERIAL \<Rightarrow> SceneManager \<Rightarrow> bool \<times> OBJECT_MATERIAL" where
  "FindMaterial tag' material s =
     (if length (m_objectMaterials s) = 0 then (False, material)
      else case FindMaterial_loop (m_objectMaterials s) tag' 0 False material of
             (bFound, material') \<Rightarrow> (True, material'))"

subsection \<open>Transform composer and shader state\<close>

definition modelView :: "vec3 \<Rightarrow> real \<Rightarrow> real \<Rightarrow> real \<Rightarrow> vec3 \<Rightarrow> mat4" where
  "modelView scaleXYZ XrotationDegrees YrotationDegrees ZrotationDegrees positionXYZ =
     (let scale = glm_scale scaleXYZ;
          rotationX = glm_rotate (glm_radians XrotationDegrees) (1, 0, 0);
          rotationY = glm_rotate (glm_radians YrotationDegrees) (0, 1, 0);
          rotationZ = glm_rotate (glm_radians ZrotationDegrees) (0, 0, 1);
          translation = glm_translate positionXYZ
      in mat4_mul (mat4_mul (mat4_mul (mat4_mul translation rotationZ) rotationY) rotationX) scale)"

definition SetTransformations ::
  "vec3 \<Rightarrow> real \<Rightarrow> real \<Rightarrow> real \<Rightarrow> vec3 \<Rightarrow> SceneManager \<Rightarrow> fault + SceneManager" where
  "SetTransformations scaleXYZ XrotationDegrees YrotationDegrees ZrotationDegrees positionXYZ s =
     (case m_pShaderManager s of
        Some sh \<Rightarrow>
          Inr (s\<lparr>m_pShaderManager := Some (setMat4Value g_ModelName
                 (modelView scaleXYZ XrotationDegrees YrotationDegrees ZrotationDegrees positionXYZ)
                 sh)\<rparr>)
      | None \<Rightarrow> Inr s)"

definition SetShaderColor :: "real \<Rightarrow> real \<Rightarrow> real \<Rightarrow> real \<Rightarrow> SceneManager \<Rightarrow> fault + SceneManager" where
  "SetShaderColor redColorValue greenColorValue blueColorValue alphaValue s =
     (let currentColor = (redColorValue, greenColorValue, blueColorValue, alphaValue) in
      case m_pShaderManager s of
        Some sh \<Rightarrow>
          Inr (s\<lparr>m_pShaderManager := Some (setVec4Value g_ColorValueName currentColor
                 (setIntValue g_UseTextureName 0 sh))\<rparr>)
      | None \<Rightarrow> Inr s)"

definition SetShaderTexture :: "string \<Rightarrow> SceneManager \<Rightarrow> fault + SceneManager" where
  "SetShaderTexture textureTag s =
     (case m_pShaderManager s of
        Some sh \<Rightarrow>
          (let sh1 = setIntValue g_UseTextureName 1 sh in
           case FindTextureSlot textureTag s of
             Inl e \<Rightarrow> Inl e
           | Inr textureID \<Rightarrow>
               Inr (s\<lparr>m_pShaderManager := Some (setSampler2DValue g_TextureValueName textureID sh1)\<rparr>))
      | None \<Rightarrow> Inr s)"

definition SetTextureUVScale :: "real \<Rightarrow> real \<Rightarrow> SceneManager \<Rightarrow> fault + SceneManager" where
  "SetTextureUVScale u v s =
     (case m_pShaderManager s of
        Some sh \<Rightarrow> Inr (s\<lparr>m_pShaderManager := Some (setVec2Value ''UVscale'' (u, v) sh)\<rparr>)
      | None \<Rightarrow> Inr s)"

text \<open>
  \<open>SetShaderMaterial(materialTag)\<close>. The local \<open>material\<close> is declared without an
  initialiser; \<open>uninitialised\<close> is whatever it holds before \<open>FindMaterial\<close> is called.
  The three setters are called through \<open>m_pShaderManager\<close> with no null check.
\<close>

definition SetShaderMaterial :: "string \<Rightarrow> OBJECT_MATERIAL \<Rightarrow> SceneManager \<Rightarrow> fault + SceneManager" where
  "SetShaderMaterial materialTag' uninitialised s =
     (if length (m_objectMaterials s) > 0 then
        (case FindMaterial materialTag' uninitialised s of (bReturn, material) \<Rightarrow>
           if bReturn = True then
             (case m_pShaderManager s of
                None \<Rightarrow> Inl NullPointerDereference
              | Some sh \<Rightarrow>
                  Inr (s\<lparr>m_pShaderManager := Some
                        (setFloatValue ''material.shininess'' (shininess material)
                          (setVec3Value ''material.specularColor'' (specularColor material)
                            (setVec3Value ''material.diffuseColor'' (diffuseColor material) sh)))\<rparr>))
           else Inr s)
      else Inr s)"

section \<open>Scene preparation\<close>

text \<open>Running one step after another; the first fault ends the run.\<close>

definition and_then :: "fault + 'a \<Rightarrow> ('a \<Rightarrow> fault + 'b) \<Rightarrow> fault + 'b" where
  "and_then r f = (case r of Inl e \<Rightarrow> Inl e | Inr x \<Rightarrow> f x)"

text \<open>
  A run of \<open>CreateGLTexture\<close> calls, one per (file name, tag), in order; the result lists
  the booleans the calls returned.
\<close>

fun CreateGLTextures ::
  "(string \<Rightarrow> image option) \<Rightarrow> (string \<times> string) list \<Rightarrow> SceneManager
     \<Rightarrow> fault + (bool list \<times> SceneManager)" where
  "CreateGLTextures stbi_load [] s = Inr ([], s)"
| "CreateGLTextures stbi_load ((filename, tag') # rest) s =
     and_then (CreateGLTexture stbi_load filename tag' s) (\<lambda>(ok, s1).
     and_then (CreateGLTextures stbi_load rest s1) (\<lambda>(oks, s2).
     Inr (ok # oks, s2)))"

definition scene_textures :: "(string \<times> string) list" where
  "scene_textures =
     [(''textures/agedrustic.jpg'', ''Copper''),
      (''textures/frostedglass.jpg'', ''FrostedGlass''),
      (''textures/DarkBrownEpoxyFloor.jpg'', ''Floor''),
      (''textures/Wall_Plaster_Cream_Dark.jpg'', ''Wall''),
      (''textures/Zebra_Top.jpg'', ''ZebraFur''),
      (''textures/Mirror.jpg'', ''Mirror''),
      (''textures/FeltChevron.jpg'', ''ChevronFur''),
      (''textures/BoxFur.jpg'', ''BoxFur'')]"

text \<open>\<open>LoadSceneTextures()\<close>: the eight loads, their results ignored, then the binding.\<close>

definition LoadSceneTextures ::
  "(string \<Rightarrow> image option) \<Rightarrow> SceneManager \<Rightarrow> fault + SceneManager" where
  "LoadSceneTextures stbi_load s =
     and_then
       (CreateGLTextures stbi_load scene_textures
          (s\<lparr>gl := glPixelStorei_UNPACK_ALIGNMENT 1 (gl s)\<rparr>))
       (\<lambda>(oks, s1). BindGLTextures s1)"

definition copper :: OBJECT_MATERIAL where
  "copper =
     \<lparr>diffuseColor = (0.72, 0.43, 0.20), specularColor = (0.95, 0.70, 0.45),
      shininess = 256.0, materialTag = ''copper''\<rparr>"

definition plasticBlack :: OBJECT_MATERIAL where
  "plasticBlack =
     \<lparr>diffuseColor = (0.06, 0.06, 0.06), specularColor = (0.20, 0.20, 0.20),
      shininess = 8.0, materialTag = ''plasticBlack''\<rparr>"

definition glass :: OBJECT_MATERIAL where
  "glass =
     \<lparr>diffuseColor = (0.55, 0.60, 0.70), specularColor = (1.5, 1.5, 1.5),
      shininess = 160.0, materialTag = ''glass''\<rparr>"

definition floorMat :: OBJECT_MATERIAL where
  "floorMat =
     \<lparr>diffuseColor = (0.22, 0.22, 0.24), specularColor = (0.85, 0.85, 0.90),
      shininess = 128.0, materialTag = ''floorMat''\<rparr>"

definition wallMat :: OBJECT_MATERIAL where
  "wallMat =
     \<lparr>diffuseColor = (0.60, 0.55, 0.45), specularColor = (0.02, 0.02, 0.02),
      shininess = 4.0, materialTag = ''wallMat''\<rparr>"

definition zebraMat :: OBJECT_MATERIAL where
  "zebraMat =
     \<lparr>diffuseColor = (0.9, 0.9, 0.9), specularColor = (0.2, 0.2, 0.2),
      shininess = 10.0, materialTag = ''zebraMat''\<rparr>"

definition mirrorMat :: OBJECT_MATERIAL where
  "mirrorMat =
     \<lparr>diffuseColor = (0.75, 0.75, 0.75), specularColor = (1.0, 1.0, 1.0),
      shininess = 256.0, materialTag = ''mirrorMat''\<rparr>"

definition chevronMat :: OBJECT_MATERIAL where
  "chevronMat =
     \<lparr>diffuseColor = (0.85, 0.85, 0.85), specularColor = (0.15, 0.15, 0.15),
      shininess = 12.0, materialTag = ''chevronMat''\<rparr>"

definition boxFurMat :: OBJECT_MATERIAL where
  "boxFurMat =
     \<lparr>diffuseColor = (0.60, 0.60, 0.60), specularColor = (0.20, 0.20, 0.20),
      shininess = 10.0, materialTag = ''boxFurMat''\<rparr>"

definition DefineObjectMaterials :: "SceneManager \<Rightarrow> SceneManager" where
  "DefineObjectMaterials s =
     s\<lparr>m_objectMaterials :=
         m_objectMaterials s @
           [copper, plasticBlack, glass, floorMat, wallMat, zebraMat, mirrorMat, chevronMat,
            boxFurMat]\<rparr>"

text \<open>
  \<open>SetupSceneLights()\<close>: the uniform writes in source order, all through
  \<open>m_pShaderManager\<close> with no null check.
\<close>

definition SetupSceneLights_writes :: "(ShaderManager \<Rightarrow> ShaderManager) list" where
  "SetupSceneLights_writes =
     [
      setBoolValue ''bUseLighting'' True,
      setVec3Value ''directionalLight.direction'' (- 0.2, - 1.0, - 0.3),
      setVec3Value ''directionalLight.ambient'' (0.28, 0.28, 0.28),
      setVec3Value ''directionalLight.diffuse'' (0.38, 0.38, 0.38),
      setVec3Value ''directionalLight.specular'' (0.50, 0.50, 0.50),
      setBoolValue ''directionalLight.bActive'' True,
      setVec3Value ''pointLights[0].position'' (0.0, 10.15, - 3.5),
      setVec3Value ''pointLights[0].ambient'' (0.22, 0.20, 0.15),
      setVec3Value ''pointLights[0].diffuse'' (1.08, 0.95, 0.78),
      setVec3Value ''pointLights[0].specular'' (1.25, 1.10, 0.90),
      setFloatValue ''pointLights[0].constant'' 1.0,
      setFloatValue ''pointLights[0].linear'' 0.11,
      setFloatValue ''pointLights[0].quadratic'' 0.038,
      setVec3Value ''pointLights[1].position'' (0.0, 5.5, - 1.0),
      setVec3Value ''pointLights[1].ambient'' (0.20, 0.20, 0.20),
      setVec3Value ''pointLights[1].diffuse'' (0.40, 0.40, 0.40),
      setVec3Value ''pointLights[1].specular'' (0.20, 0.20, 0.20),
      setFloatValue ''pointLights[1].constant'' 1.0,
      setFloatValue ''pointLights[1].linear'' 0.09,
      setFloatValue ''pointLights[1].quadratic'' 0.032,
      setBoolValue ''pointLights[1].bActive'' True,
      setVec3Value ''pointLights[2].position'' (0.0, 10.9, - 3.5),
      setVec3Value ''pointLights[2].ambient'' (0.12, 0.10, 0.08),
      setVec3Value ''pointLights[2].diffuse'' (0.45, 0.38, 0.28),
      setVec3Value ''pointLights[2].specular'' (0.55, 0.50, 0.40),
      setFloatValue ''pointLights[2].constant'' 1.0,
      setFloatValue ''pointLights[2].linear'' 0.09,
      setFloatValue ''pointLights[2].quadratic'' 0.032,
      setBoolValue ''pointLights[2].bActive'' True,
      setVec3Value ''pointLights[3].position'' (- 1.2, 11.5, - 6.0),
      setVec3Value ''pointLights[3].ambient'' (0.05, 0.045, 0.035),
      setVec3Value ''pointLights[3].diffuse'' (0.15, 0.13, 0.11),
      setVec3Value ''pointLights[3].specular'' (0.05, 0.045, 0.035),
      setFloatValue ''pointLights[3].constant'' 1.0,
      setFloatValue ''pointLights[3].linear'' 0.09,
      setFloatValue ''pointLights[3].quadratic'' 0.032,
      setBoolValue ''pointLights[3].bActive'' True,
      setVec3Value ''pointLights[4].position'' (1.2, 11.5, - 6.0),
      setVec3Value ''pointLights[4].ambient'' (0.05, 0.045, 0.035),
      setVec3Value ''pointLights[4].diffuse'' (0.15, 0.13, 0.11),
      setVec3Value ''pointLights[4].specular'' (0.05, 0.045, 0.035),
      setFloatValue ''pointLights[4].constant'' 1.0,
      setFloatValue ''pointLights[4].linear'' 0.09,
      setFloatValue ''pointLights[4].quadratic'' 0.032,
      setBoolValue ''pointLights[4].bActive'' True,
      setBoolValue ''spotLight.bActive'' False]"

definition SetupSceneLights :: "SceneManager \<Rightarrow> fault + SceneManager" where
  "SetupSceneLights s =
     (case m_pShaderManager s of
        None \<Rightarrow> Inl NullPointerDereference
      | Some sh \<Rightarrow> Inr (s\<lparr>m_pShaderManager := Some (fold (\<lambda>w. w) SetupSceneLights_writes sh)\<rparr>))"

text \<open>
  \<open>PrepareScene()\<close>. The eight \<open>Load...Mesh\<close> calls between the two halves belong to the
  mesh collaborator and touch none of the modelled state.
\<close>

definition PrepareScene :: "(string \<Rightarrow> image option) \<Rightarrow> SceneManager \<Rightarrow> fault + SceneManager" where
  "PrepareScene stbi_load s =
     and_then (LoadSceneTextures stbi_load s) (\<lambda>s1.
     and_then (SetupSceneLights (DefineObjectMaterials s1)) (\<lambda>s2.
     SetupSceneLights (DefineObjectMaterials s2)))"

text \<open>
  Modelled from the spec: the class declaration, with the size of \<open>m_textureIDs\<close> and
  the initial value of \<open>m_loadedTextures\<close>, is not under src/. The spec bounds the
  registry by the 16 texture units (the comment of \<open>BindGLTextures\<close> says "up to 16
  slots") and has both registries start empty. The constructor stores the shader manager
  pointer.
\<close>

definition default_gl_context :: gl_context where
  "default_gl_context =
     \<lparr>texture_names = [], texture_objects = Map.empty, active_texture = 0,
      texture_binding_2d = (\<lambda>unit. 0), unpack_alignment = 4\<rparr>"

definition new_SceneManager :: "ShaderManager option \<Rightarrow> SceneManager" where
  "new_SceneManager pShaderManager =
     \<lparr>m_pShaderManager = pShaderManager,
      m_textureIDs = replicate 16 \<lparr>ID = 0, tag = []\<rparr>,
      m_loadedTextures = 0,
      m_objectMaterials = [],
      gl = default_gl_context\<rparr>"

section \<open>Render passes\<close>

text \<open>
  The render state that \<open>RenderScene\<close> switches between its passes: the graphics
  library's blending, depth and culling state, and the shader's \<open>bUseLighting\<close> uniform.
\<close>

datatype blend_factor = GL_ZERO | GL_ONE | GL_SRC_ALPHA | GL_ONE_MINUS_SRC_ALPHA
datatype cull_face_mode = GL_FRONT | GL_BACK
datatype capability = GL_BLEND | GL_DEPTH_TEST | GL_CULL_FACE

record RenderPassState =
  blendEnabled :: bool
  blendSrcFactor :: blend_factor
  blendDstFactor :: blend_factor
  depthWriteEnabled :: bool
  depthTestEnabled :: bool
  cullEnabled :: bool
  cullFace :: cull_face_mode
  lightingEnabled :: bool

fun set_capability :: "capability \<Rightarrow> bool \<Rightarrow> RenderPassState \<Rightarrow> RenderPassState" where
  "set_capability GL_BLEND b p = p\<lparr>blendEnabled := b\<rparr>"
| "set_capability GL_DEPTH_TEST b p = p\<lparr>depthTestEnabled := b\<rparr>"
| "set_capability GL_CULL_FACE b p = p\<lparr>cullEnabled := b\<rparr>"

definition glEnable :: "capability \<Rightarrow> RenderPassState \<Rightarrow> RenderPassState" where
  "glEnable cap p = set_capability cap True p"

definition glDisable :: "capability \<Rightarrow> RenderPassState \<Rightarrow> RenderPassState" where
  "glDisable cap p = set_capability cap False p"

definition glBlendFunc :: "blend_factor \<Rightarrow> blend_factor \<Rightarrow> RenderPassState \<Rightarrow> RenderPassState" where
  "glBlendFunc sfactor dfactor p = p\<lparr>blendSrcFactor := sfactor, blendDstFactor := dfactor\<rparr>"

definition glDepthMask :: "bool \<Rightarrow> RenderPassState \<Rightarrow> RenderPassState" where
  "glDepthMask flag p = p\<lparr>depthWriteEnabled := flag\<rparr>"

definition glCullFace :: "cull_face_mode \<Rightarrow> RenderPassState \<Rightarrow> RenderPassState" where
  "glCullFace mode p = p\<lparr>cullFace := mode\<rparr>"

text \<open>\<open>m_pShaderManager->setBoolValue("bUseLighting", b)\<close>, seen from the pass state.\<close>

definition set_bUseLighting :: "bool \<Rightarrow> RenderPassState \<Rightarrow> RenderPassState" where
  "set_bUseLighting b p = p\<lparr>lightingEnabled := b\<rparr>"

text \<open>
  An object block of \<open>RenderScene\<close>: \<open>SetTransformations\<close>, \<open>SetShaderColor\<close>,
  \<open>SetShaderMaterial\<close>, \<open>SetShaderTexture\<close>, \<open>SetTextureUVScale\<close>, a write of the
  \<open>objectColor\<close> uniform and a \<open>Draw...Mesh\<close> call. None of them calls the graphics
  library's state functions or writes \<open>bUseLighting\<close>, so the pass state passes through.
\<close>

definition draw_objects :: "RenderPassState \<Rightarrow> RenderPassState" where
  "draw_objects p = p"

text \<open>
  \<open>RenderScene()\<close>, statement by statement for everything that touches the pass state,
  in source order, as a list of steps.
\<close>

definition RenderScene_reset :: "(RenderPassState \<Rightarrow> RenderPassState) list" where
  "RenderScene_reset =
     [glDisable GL_BLEND,
      glBlendFunc GL_SRC_ALPHA GL_ONE_MINUS_SRC_ALPHA,
      glDepthMask True,
      set_bUseLighting True,
      glEnable GL_DEPTH_TEST,
      glDisable GL_CULL_FACE]"

definition RenderScene_opaque :: "(RenderPassState \<Rightarrow> RenderPassState) list" where
  "RenderScene_opaque =
     [draw_objects,
      set_bUseLighting False,
      draw_objects,
      set_bUseLighting True,
      draw_objects]"

definition RenderScene_glass_shade :: "(RenderPassState \<Rightarrow> RenderPassState) list" where
  "RenderScene_glass_shade =
     [glEnable GL_BLEND,
      glBlendFunc GL_SRC_ALPHA GL_ONE_MINUS_SRC_ALPHA,
      glDepthMask False,
      glEnable GL_CULL_FACE,
      glCullFace GL_BACK,
      draw_objects,
      glCullFace GL_FRONT,
      draw_objects,
      glCullFace GL_BACK,
      draw_objects,
      glDisable GL_CULL_FACE,
      glDepthMask True]"

definition RenderScene_halo :: "(RenderPassState \<Rightarrow> RenderPassState) list" where
  "RenderScene_halo =
     [glDepthMask False,
      glDisable GL_DEPTH_TEST,
      glEnable GL_BLEND,
      glBlendFunc GL_ONE GL_ONE,
      set_bUseLighting False,
      draw_objects,
      set_bUseLighting True,
      glBlendFunc GL_SRC_ALPHA GL_ONE_MINUS_SRC_ALPHA,
      glEnable GL_DEPTH_TEST,
      glDepthMask True]"

definition run_steps :: "(RenderPassState \<Rightarrow> RenderPassState) list \<Rightarrow> RenderPassState \<Rightarrow> RenderPassState" where
  "run_steps steps p = fold (\<lambda>step. step) steps p"

definition RenderScene :: "RenderPassState \<Rightarrow> RenderPassState" where
  "RenderScene p =
     run_steps (RenderScene_reset @ RenderScene_opaque @ RenderScene_glass_shade @ RenderScene_halo) p"

section \<open>Well-formed registries and sample inputs\<close>

text \<open>
  The count of a texture registry never exceeds the capacity of its array: the constructor
  state satisfies this, and every operation that returns keeps it. The tags of the registry
  are those of the entries in use, in slot order.
\<close>

definition registry_ok :: "SceneManager \<Rightarrow> bool" where
  "registry_ok s = (m_loadedTextures s \<le> length (m_textureIDs s))"

definition registered_tags :: "SceneManager \<Rightarrow> string list" where
  "registered_tags s = map tag (take (m_loadedTextures s) (m_textureIDs s))"

text \<open>A decoder for which every file is a 2x2 RGB image, and one that gives two channels.\<close>

definition rgb_files :: "string \<Rightarrow> image option" where
  "rgb_files filename = Some \<lparr>width = 2, height = 2, colorChannels = 3\<rparr>"

definition grey_alpha_files :: "string \<Rightarrow> image option" where
  "grey_alpha_files filename = Some \<lparr>width = 2, height = 2, colorChannels = 2\<rparr>"

text \<open>
  The context after \<open>CreateGLTexture\<close> has uploaded an image, in closed form: one new
  name, its texture object with the parameters, the storage and the mipmaps, and texture 0
  bound again. A texture name is resident when an object with storage stands behind it.
\<close>

definition uploaded :: "internal_format \<Rightarrow> image \<Rightarrow> gl_context \<Rightarrow> gl_context" where
  "uploaded fmt img g =
     (let n = Suc (fold max (texture_names g) 0) in
      g\<lparr>texture_names := n # texture_names g,
        texture_binding_2d := (texture_binding_2d g)(active_texture g := 0),
        texture_objects := (texture_objects g)(n \<mapsto>
          (case texture_objects g n of None \<Rightarrow> new_texture_object | Some t \<Rightarrow> t)
            \<lparr>wrap_s := GL_REPEAT, wrap_t := GL_REPEAT, min_filter := GL_LINEAR,
              mag_filter := GL_LINEAR, storage := Some (fmt, width img, height img),
              mipmaps := True\<rparr>)\<rparr>)"

definition resident :: "gl_context \<Rightarrow> nat \<Rightarrow> bool" where
  "resident g n = (case texture_objects g n of None \<Rightarrow> False | Some obj \<Rightarrow> storage obj \<noteq> None)"

text \<open>The state a run of loads ends in (the starting state when the run faults).\<close>

definition loaded_scene ::
  "(string \<Rightarrow> image option) \<Rightarrow> (string \<times> string) list \<Rightarrow> SceneManager \<Rightarrow> SceneManager" where
  "loaded_scene stbi_load loads s =
     (case CreateGLTextures stbi_load loads s of Inr (oks, s') \<Rightarrow> s' | Inl e \<Rightarrow> s)"

text \<open>Sample runs of loads: three distinct tags, the same tag twice, two tags.\<close>

definition abc_loads :: "(string \<times> string) list" where
  "abc_loads =
     [(''textures/a.jpg'', ''A''), (''textures/b.jpg'', ''B''), (''textures/c.jpg'', ''C'')]"

definition aa_loads :: "(string \<times> string) list" where
  "aa_loads = [(''textures/a1.jpg'', ''A''), (''textures/a2.jpg'', ''A'')]"

definition ab_loads :: "(string \<times> string) list" where
  "ab_loads = [(''textures/a.jpg'', ''A''), (''textures/b.jpg'', ''B'')]"

text \<open>What a call returned, or \<open>d\<close> when it faulted.\<close>

definition returned :: "fault + 'a \<Rightarrow> 'a \<Rightarrow> 'a" where
  "returned r d = (case r of Inr x \<Rightarrow> x | Inl e \<Rightarrow> d)"

text \<open>The nine materials of \<open>DefineObjectMaterials\<close>, in the order of their \<open>push_back\<close>.\<close>

definition scene_materials :: "OBJECT_MATERIAL list" where
  "scene_materials =
     [copper, plasticBlack, glass, floorMat, wallMat, zebraMat, mirrorMat, chevronMat, boxFurMat]"

text \<open>
  A release scenario: the constructor's state, the loads of A and B, the release, and a
  load of C after it.
\<close>

definition ab_scene :: SceneManager where
  "ab_scene = loaded_scene rgb_files ab_loads (new_SceneManager None)"

definition ab_released :: SceneManager where
  "ab_released = returned (DestroyGLTextures ab_scene) ab_scene"

definition abc_reloaded :: SceneManager where
  "abc_reloaded = loaded_scene rgb_files [(''textures/c.jpg'', ''C'')] ab_released"

text \<open>
  The scene after \<open>PrepareScene\<close> on the constructor's state with a shader manager that
  has no uniform set yet, for a given image decoder.
\<close>

definition prepared_scene :: "(string \<Rightarrow> image option) \<Rightarrow> SceneManager" where
  "prepared_scene stbi_load =
     returned (PrepareScene stbi_load (new_SceneManager (Some Map.empty)))
       (new_SceneManager (Some Map.empty))"

text \<open>
  The scene with the nine materials defined and copper pushed to the shader, and the
  three material uniforms as a store.
\<close>

definition material_uniforms :: "vec3 \<Rightarrow> vec3 \<Rightarrow> real \<Rightarrow> ShaderManager" where
  "material_uniforms diffuse specular shine =
     [''material.diffuseColor'' \<mapsto> UVec3 diffuse,
      ''material.specularColor'' \<mapsto> UVec3 specular,
      ''material.shininess'' \<mapsto> UFloat shine]"

definition copper_pushed :: SceneManager where
  "copper_pushed =
     (DefineObjectMaterials (new_SceneManager (Some Map.empty)))
       \<lparr>m_pShaderManager :=
          Some (material_uniforms (0.72, 0.43, 0.20) (0.95, 0.70, 0.45) 256)\<rparr>"

text \<open>
  The pass state a first frame starts from: the window is created with blending on and the
  standard blend factors, the scene preparation switches the lighting on, and the rest is
  the graphics library's default.
\<close>

definition window_pass_state :: RenderPassState where
  "window_pass_state =
     \<lparr>blendEnabled = True, blendSrcFactor = GL_SRC_ALPHA,
      blendDstFactor = GL_ONE_MINUS_SRC_ALPHA, depthWriteEnabled = True,
      depthTestEnabled = False, cullEnabled = False, cullFace = GL_BACK,
      lightingEnabled = True\<rparr>"

text \<open>A content for the uninitialised local of \<open>SetShaderMaterial\<close>: all zero.\<close>

definition blank_material :: OBJECT_MATERIAL where
  "blank_material =
     \<lparr>diffuseColor = (0, 0, 0), specularColor = (0, 0, 0), shininess = 0, materialTag = []\<rparr>"

section \<open>Properties of the texture registry\<close>

lemma FindTextureSlot_loop_found:
  "FindTextureSlot_loop arr n t index True slot = Inr slot"
  by (simp add: FindTextureSlot_loop.simps)

lemma FindTextureSlot_loop_miss:
  "n \<le> length arr \<Longrightarrow>
   (\<forall>j. index \<le> j \<and> j < n \<longrightarrow> tag (arr ! j) \<noteq> t) \<Longrightarrow>
   FindTextureSlot_loop arr n t index False slot = Inr slot"
proof (induction "n - index" arbitrary: index)
  case 0
  then show ?case by (simp add: FindTextureSlot_loop.simps)
next
  case (Suc k)
  then have "index < n" by simp
  moreover have "index < length arr"
    using Suc.prems(1) calculation by simp
  moreover have "tag (arr ! index) \<noteq> t"
    using Suc.prems(2) calculation by simp
  moreover have "FindTextureSlot_loop arr n t (index + 1) False slot = Inr slot"
    using Suc by simp
  ultimately show ?case
    by (subst FindTextureSlot_loop.simps) simp
qed

lemma FindTextureSlot_loop_hit:
  "n \<le> length arr \<Longrightarrow> index \<le> i \<Longrightarrow> i < n \<Longrightarrow>
   tag (arr ! i) = t \<Longrightarrow>
   (\<forall>j. index \<le> j \<and> j < i \<longrightarrow> tag (arr ! j) \<noteq> t) \<Longrightarrow>
   FindTextureSlot_loop arr n t index False slot = Inr (int i)"
proof (induction "i - index" arbitrary: index)
  case 0
  then have "index = i" by simp
  moreover have "i < length arr"
    using 0 by simp
  ultimately show ?case
    using 0 by (subst FindTextureSlot_loop.simps) (simp add: FindTextureSlot_loop_found)
next
  case (Suc k)
  then have lt: "index < i" by simp
  then have "index < n" using Suc.prems by simp
  moreover have "index < length arr"
    using Suc.prems(1) calculation by simp
  moreover have "tag (arr ! index) \<noteq> t"
    using Suc.prems(5) lt by simp
  moreover have "FindTextureSlot_loop arr n t (index + 1) False slot = Inr (int i)"
    using Suc lt by simp
  ultimately show ?case
    by (subst FindTextureSlot_loop.simps) simp
qed

lemma CreateGLTexture_cases:
  "CreateGLTexture f fn t s = Inr (ok, s') \<Longrightarrow>
     (ok \<and> m_loadedTextures s < length (m_textureIDs s)
         \<and> m_loadedTextures s' = Suc (m_loadedTextures s)
         \<and> (\<exists>n. m_textureIDs s' = (m_textureIDs s)[m_loadedTextures s := \<lparr>ID = n, tag = t\<rparr>]))
   \<or> (\<not> ok \<and> m_loadedTextures s' = m_loadedTextures s \<and> m_textureIDs s' = m_textureIDs s)"
  by (auto simp: CreateGLTexture_def CreateGLTexture_register_def Let_def
           split: option.splits prod.splits if_splits)

lemma CreateGLTexture_success:
  assumes "CreateGLTexture f fn t s = Inr (True, s')" and "registry_ok s"
  shows "registry_ok s' \<and> registered_tags s' = registered_tags s @ [t]"
proof -
  from CreateGLTexture_cases[OF assms(1)]
  obtain n where lt: "m_loadedTextures s < length (m_textureIDs s)"
    and cnt: "m_loadedTextures s' = Suc (m_loadedTextures s)"
    and arr: "m_textureIDs s' = (m_textureIDs s)[m_loadedTextures s := \<lparr>ID = n, tag = t\<rparr>]"
    by auto
  have "take (Suc (m_loadedTextures s)) ((m_textureIDs s)[m_loadedTextures s := \<lparr>ID = n, tag = t\<rparr>])
        = take (m_loadedTextures s) (m_textureIDs s) @ [\<lparr>ID = n, tag = t\<rparr>]"
    using lt by (simp add: take_Suc_conv_app_nth)
  then show ?thesis
    using lt cnt arr by (simp add: registry_ok_def registered_tags_def)
qed

lemma CreateGLTextures_all_ok:
  "CreateGLTextures f loads s = Inr (oks, s') \<Longrightarrow> \<forall>b\<in>set oks. b \<Longrightarrow> registry_ok s \<Longrightarrow>
   registry_ok s' \<and> registered_tags s' = registered_tags s @ map snd loads"
proof (induction loads arbitrary: s oks)
  case Nil
  then show ?case by simp
next
  case (Cons a loads)
  obtain fn t where a: "a = (fn, t)" by (cases a)
  from Cons.prems(1) obtain ok s1 oks' where
      one: "CreateGLTexture f fn t s = Inr (ok, s1)"
      and rest: "CreateGLTextures f loads s1 = Inr (oks', s')"
      and oks: "oks = ok # oks'"
    by (auto simp: a and_then_def split: sum.splits prod.splits)
  have "ok" using Cons.prems(2) oks by auto
  with one Cons.prems(3) have s1: "registry_ok s1" "registered_tags s1 = registered_tags s @ [t]"
    using CreateGLTexture_success by auto
  have "\<forall>b\<in>set oks'. b" using Cons.prems(2) oks by auto
  from Cons.IH[OF rest this s1(1)] show ?case
    by (simp add: s1(2) a)
qed

lemma FindTextureSlot_first:
  assumes "registry_ok s" and "i < length (registered_tags s)"
    and "registered_tags s ! i = t" and "\<forall>j<i. registered_tags s ! j \<noteq> t"
  shows "FindTextureSlot t s = Inr (int i)"
proof -
  have i: "i < m_loadedTextures s" using assms(2) by (simp add: registered_tags_def)
  have n: "m_loadedTextures s \<le> length (m_textureIDs s)" using assms(1) by (simp add: registry_ok_def)
  have nth: "\<And>j. j < m_loadedTextures s \<Longrightarrow> registered_tags s ! j = tag (m_textureIDs s ! j)"
    using n by (simp add: registered_tags_def)
  have "tag (m_textureIDs s ! i) = t" using assms(3) nth[OF i] by simp
  moreover have "\<forall>j. 0 \<le> j \<and> j < i \<longrightarrow> tag (m_textureIDs s ! j) \<noteq> t"
    using assms(4) nth i by auto
  ultimately show ?thesis
    unfolding FindTextureSlot_def
    using FindTextureSlot_loop_hit[OF n _ i] by simp
qed

lemma FindTextureSlot_absent:
  assumes "registry_ok s" and "t \<notin> set (registered_tags s)"
  shows "FindTextureSlot t s = Inr (- 1)"
proof -
  have n: "m_loadedTextures s \<le> length (m_textureIDs s)" using assms(1) by (simp add: registry_ok_def)
  have "\<forall>j. 0 \<le> j \<and> j < m_loadedTextures s \<longrightarrow> tag (m_textureIDs s ! j) \<noteq> t"
  proof (intro allI impI)
    fix j assume "0 \<le> j \<and> j < m_loadedTextures s"
    then have "j < length (registered_tags s)" "registered_tags s ! j = tag (m_textureIDs s ! j)"
      using n by (simp_all add: registered_tags_def)
    then show "tag (m_textureIDs s ! j) \<noteq> t"
      using assms(2) by (metis nth_mem)
  qed
  then show ?thesis
    unfolding FindTextureSlot_def by (rule FindTextureSlot_loop_miss[OF n])
qed

lemma glBindTexture_Suc:
  "glBindTexture (Suc k) g =
     g\<lparr>texture_binding_2d := (texture_binding_2d g)(active_texture g := Suc k),
       texture_objects := (texture_objects g)(Suc k \<mapsto>
          (case texture_objects g (Suc k) of None \<Rightarrow> new_texture_object | Some t \<Rightarrow> t))\<rparr>"
  by (cases "texture_objects g (Suc k)") (simp_all add: glBindTexture_def fun_upd_idem)

lemma glBindTexture_0:
  "glBindTexture 0 g = g\<lparr>texture_binding_2d := (texture_binding_2d g)(active_texture g := 0)\<rparr>"
  by (simp add: glBindTexture_def)

lemma update_bound_texture_bound:
  "texture_objects g (texture_binding_2d g (active_texture g)) = Some obj \<Longrightarrow>
   update_bound_texture f g =
     g\<lparr>texture_objects := (texture_objects g)(texture_binding_2d g (active_texture g) \<mapsto> f obj)\<rparr>"
  by (simp add: update_bound_texture_def)

lemma upload_chain:
  "glBindTexture 0 (glGenerateMipmap (glTexImage2D fmt w h
     (update_bound_texture (\<lambda>t. t\<lparr>mag_filter := GL_LINEAR\<rparr>)
       (update_bound_texture (\<lambda>t. t\<lparr>min_filter := GL_LINEAR\<rparr>)
         (update_bound_texture (\<lambda>t. t\<lparr>wrap_t := GL_REPEAT\<rparr>)
           (update_bound_texture (\<lambda>t. t\<lparr>wrap_s := GL_REPEAT\<rparr>)
             (glBindTexture (Suc k) (g\<lparr>texture_names := Suc k # texture_names g\<rparr>)))))))) =
   g\<lparr>texture_names := Suc k # texture_names g,
        texture_binding_2d := (texture_binding_2d g)(active_texture g := 0),
        texture_objects := (texture_objects g)(Suc k \<mapsto>
          (case texture_objects g (Suc k) of None \<Rightarrow> new_texture_object | Some t \<Rightarrow> t)
            \<lparr>wrap_s := GL_REPEAT, wrap_t := GL_REPEAT, min_filter := GL_LINEAR,
              mag_filter := GL_LINEAR, storage := Some (fmt, w, h),
              mipmaps := True\<rparr>)\<rparr>"
  by (simp add: glBindTexture_Suc glBindTexture_0 update_bound_texture_bound glTexImage2D_def glGenerateMipmap_def)

lemma CreateGLTexture_supported:
  assumes "stbi_load fn = Some img"
    and "colorChannels img = 3 \<or> colorChannels img = 4"
    and "m_loadedTextures s < length (m_textureIDs s)"
  shows "CreateGLTexture stbi_load fn t s =
     Inr (True,
          s\<lparr>m_textureIDs := (m_textureIDs s)[m_loadedTextures s :=
                 \<lparr>ID = Suc (fold max (texture_names (gl s)) 0), tag = t\<rparr>],
            m_loadedTextures := m_loadedTextures s + 1,
            gl := uploaded (if colorChannels img = 3 then GL_RGB8 else GL_RGBA8) img (gl s)\<rparr>)"
  using assms
  by (auto simp: CreateGLTexture_def CreateGLTexture_register_def glGenTextures_def Let_def
        upload_chain uploaded_def)

lemma CreateGLTexture_frame:
  "CreateGLTexture stbi_load fn t s = Inr (ok, s') \<Longrightarrow>
   m_pShaderManager s' = m_pShaderManager s \<and> m_objectMaterials s' = m_objectMaterials s
   \<and> length (m_textureIDs s') = length (m_textureIDs s)"
  by (auto simp: CreateGLTexture_def CreateGLTexture_register_def Let_def
           split: option.splits prod.splits if_splits)

lemma CreateGLTextures_frame:
  "CreateGLTextures stbi_load loads s = Inr (oks, s') \<Longrightarrow>
   m_pShaderManager s' = m_pShaderManager s \<and> m_objectMaterials s' = m_objectMaterials s
   \<and> length (m_textureIDs s') = length (m_textureIDs s)"
proof (induction loads arbitrary: s oks)
  case Nil
  then show ?case by simp
next
  case (Cons a loads)
  obtain fn t where a: "a = (fn, t)" by (cases a)
  from Cons.prems obtain ok s1 oks' where
      one: "CreateGLTexture stbi_load fn t s = Inr (ok, s1)"
      and rest: "CreateGLTextures stbi_load loads s1 = Inr (oks', s')"
    by (auto simp: a and_then_def split: sum.splits prod.splits)
  show ?case
    using CreateGLTexture_frame[OF one] Cons.IH[OF rest] by simp
qed

lemma CreateGLTextures_succeed:
  "\<forall>fn\<in>fst ` set loads. \<exists>img. stbi_load fn = Some img \<and> (colorChannels img = 3 \<or> colorChannels img = 4) \<Longrightarrow>
   m_loadedTextures s + length loads \<le> length (m_textureIDs s) \<Longrightarrow>
   \<exists>s'. CreateGLTextures stbi_load loads s = Inr (replicate (length loads) True, s')"
proof (induction loads arbitrary: s)
  case Nil
  then show ?case by simp
next
  case (Cons a loads)
  obtain fn t where a: "a = (fn, t)" by (cases a)
  from Cons.prems(1) obtain img where img: "stbi_load fn = Some img"
      "colorChannels img = 3 \<or> colorChannels img = 4"
    by (auto simp: a)
  have room: "m_loadedTextures s < length (m_textureIDs s)"
    using Cons.prems(2) by simp
  from CreateGLTexture_supported[where stbi_load = stbi_load and fn = fn and img = img
      and s = s and t = t] img room
  obtain s1 where one: "CreateGLTexture stbi_load fn t s = Inr (True, s1)"
    and cnt: "m_loadedTextures s1 = m_loadedTextures s + 1"
    and len: "length (m_textureIDs s1) = length (m_textureIDs s)"
    by simp
  have "\<forall>fn\<in>fst ` set loads. \<exists>img. stbi_load fn = Some img \<and> (colorChannels img = 3 \<or> colorChannels img = 4)"
    using Cons.prems(1) by auto
  moreover have "m_loadedTextures s1 + length loads \<le> length (m_textureIDs s1)"
    using Cons.prems(2) cnt len by simp
  ultimately obtain s' where "CreateGLTextures stbi_load loads s1 = Inr (replicate (length loads) True, s')"
    using Cons.IH by blast
  then show ?case
    using one by (simp add: a and_then_def)
qed

lemma loaded_scene_rgb:
  assumes "m_loadedTextures s + length loads \<le> length (m_textureIDs s)"
  shows "CreateGLTextures rgb_files loads s =
           Inr (replicate (length loads) True, loaded_scene rgb_files loads s)"
proof -
  have "\<forall>fn\<in>fst ` set loads. \<exists>img. rgb_files fn = Some img \<and> (colorChannels img = 3 \<or> colorChannels img = 4)"
    by (simp add: rgb_files_def)
  from CreateGLTextures_succeed[where stbi_load = rgb_files and loads = loads and s = s] this assms
  obtain s' where "CreateGLTextures rgb_files loads s = Inr (replicate (length loads) True, s')"
    by blast
  then show ?thesis by (simp add: loaded_scene_def)
qed

section \<open>The transform composer\<close>

lemma mat4_mul_vec4_assoc:
  "mat4_mul_vec4 (mat4_mul a b) v = mat4_mul_vec4 a (mat4_mul_vec4 b v)"
  by (cases a; cases b; cases v) (auto simp: algebra_simps)

lemma mat4_mul_assoc:
  "mat4_mul (mat4_mul a b) c = mat4_mul a (mat4_mul b c)"
  by (cases c) (simp add: mat4_mul_vec4_assoc)

lemma glm_rotate_X:
  "glm_rotate a (1, 0, 0) = ((1, 0, 0, 0), (0, cos a, sin a, 0), (0, - sin a, cos a, 0), (0, 0, 0, 1))"
  by (simp add: mat4_identity_def Let_def)

lemma glm_rotate_Y:
  "glm_rotate a (0, 1, 0) = ((cos a, 0, - sin a, 0), (0, 1, 0, 0), (sin a, 0, cos a, 0), (0, 0, 0, 1))"
  by (simp add: mat4_identity_def Let_def)

lemma glm_rotate_Z:
  "glm_rotate a (0, 0, 1) = ((cos a, sin a, 0, 0), (- sin a, cos a, 0, 0), (0, 0, 1, 0), (0, 0, 0, 1))"
  by (simp add: mat4_identity_def Let_def)

text \<open>
  Claim C1. The model matrix is the product
  \<open>Translate(position) * RotateZ(rotZ) * RotateY(rotY) * RotateX(rotX) * Scale(scale)\<close>,
  so a point is scaled first, then rotated about X, Y and Z, then translated. For scale
  \<open>(2,1,1)\<close>, rotation \<open>(0,90,0)\<close> degrees and position \<open>(1,0,0)\<close> the local point
  \<open>(1,0,0)\<close> goes to the world point \<open>(1,0,-2)\<close>. Over the reals the value is exact.
\<close>

theorem C1_transform_composition:
  "modelView scaleXYZ rx ry rz positionXYZ =
     mat4_mul (glm_translate positionXYZ)
       (mat4_mul (glm_rotate (glm_radians rz) (0, 0, 1))
         (mat4_mul (glm_rotate (glm_radians ry) (0, 1, 0))
           (mat4_mul (glm_rotate (glm_radians rx) (1, 0, 0)) (glm_scale scaleXYZ))))
   \<and> mat4_mul_vec4 (modelView scaleXYZ rx ry rz positionXYZ) v =
       mat4_mul_vec4 (glm_translate positionXYZ)
         (mat4_mul_vec4 (glm_rotate (glm_radians rz) (0, 0, 1))
           (mat4_mul_vec4 (glm_rotate (glm_radians ry) (0, 1, 0))
             (mat4_mul_vec4 (glm_rotate (glm_radians rx) (1, 0, 0))
               (mat4_mul_vec4 (glm_scale scaleXYZ) v))))
   \<and> mat4_mul_vec4 (modelView (2, 1, 1) 0 90 0 (1, 0, 0)) (1, 0, 0, 1) = (1, 0, - 2, 1)"
proof (intro conjI)
  show "modelView scaleXYZ rx ry rz positionXYZ =
     mat4_mul (glm_translate positionXYZ)
       (mat4_mul (glm_rotate (glm_radians rz) (0, 0, 1))
         (mat4_mul (glm_rotate (glm_radians ry) (0, 1, 0))
           (mat4_mul (glm_rotate (glm_radians rx) (1, 0, 0)) (glm_scale scaleXYZ))))"
    unfolding modelView_def Let_def by (simp only: mat4_mul_assoc)
  show "mat4_mul_vec4 (modelView scaleXYZ rx ry rz positionXYZ) v =
       mat4_mul_vec4 (glm_translate positionXYZ)
         (mat4_mul_vec4 (glm_rotate (glm_radians rz) (0, 0, 1))
           (mat4_mul_vec4 (glm_rotate (glm_radians ry) (0, 1, 0))
             (mat4_mul_vec4 (glm_rotate (glm_radians rx) (1, 0, 0))
               (mat4_mul_vec4 (glm_scale scaleXYZ) v))))"
    unfolding modelView_def Let_def by (simp only: mat4_mul_vec4_assoc)
  show "mat4_mul_vec4 (modelView (2, 1, 1) 0 90 0 (1, 0, 0)) (1, 0, 0, 1) = (1, 0, - 2, 1)"
    by (simp add: modelView_def glm_radians_def mat4_identity_def Let_def)
qed

section \<open>The material registry\<close>

text \<open>
  Claim C3. \<open>FindMaterial\<close> returns false exactly when the registry is empty: for a
  registry with entries it returns true for every tag, whether or not the scan matched.
\<close>

theorem C3_FindMaterial_false_iff_empty:
  "fst (FindMaterial tag' material s) = (m_objectMaterials s \<noteq> [])"
  by (simp add: FindMaterial_def split: prod.splits)

section \<open>The null shader manager\<close>

text \<open>
  Claim C10. With a null shader manager pointer, \<open>SetTransformations\<close>,
  \<open>SetShaderColor\<close>, \<open>SetShaderTexture\<close> and \<open>SetTextureUVScale\<close> write nothing and
  return; \<open>SetShaderMaterial\<close> has no null check and dereferences the pointer as soon as
  the material registry has an entry.
\<close>

theorem C10_null_shader_manager:
  assumes "m_pShaderManager s = None"
  shows "SetTransformations scaleXYZ rx ry rz positionXYZ s = Inr s
    \<and> SetShaderColor r g b a s = Inr s
    \<and> SetShaderTexture textureTag s = Inr s
    \<and> SetTextureUVScale u v s = Inr s
    \<and> SetShaderMaterial materialTag' uninitialised s =
        (if m_objectMaterials s = [] then Inr s else Inl NullPointerDereference)"
  using assms
  by (simp add: SetTransformations_def SetShaderColor_def SetShaderTexture_def
      SetTextureUVScale_def SetShaderMaterial_def FindMaterial_def split: prod.splits)

text \<open>The null pointer with the nine scene materials, and with an empty registry.\<close>

theorem C10_null_shader_manager_witness:
  "SetTransformations (2, 1, 1) 0 90 0 (1, 0, 0) (DefineObjectMaterials (new_SceneManager None))
      = Inr (DefineObjectMaterials (new_SceneManager None))
    \<and> SetShaderColor 1 0 0 1 (DefineObjectMaterials (new_SceneManager None))
      = Inr (DefineObjectMaterials (new_SceneManager None))
    \<and> SetShaderTexture ''Floor'' (DefineObjectMaterials (new_SceneManager None))
      = Inr (DefineObjectMaterials (new_SceneManager None))
    \<and> SetTextureUVScale 3 3 (DefineObjectMaterials (new_SceneManager None))
      = Inr (DefineObjectMaterials (new_SceneManager None))
    \<and> SetShaderMaterial ''floorMat'' copper (DefineObjectMaterials (new_SceneManager None))
      = Inl NullPointerDereference
    \<and> SetShaderMaterial ''floorMat'' copper (new_SceneManager None)
      = Inr (new_SceneManager None)"
proof -
  have a: "m_pShaderManager (DefineObjectMaterials (new_SceneManager None)) = None"
    by (simp add: DefineObjectMaterials_def new_SceneManager_def)
  have b: "m_pShaderManager (new_SceneManager None) = None"
    by (simp add: new_SceneManager_def)
  have c: "m_objectMaterials (DefineObjectMaterials (new_SceneManager None)) \<noteq> []"
    by (simp add: DefineObjectMaterials_def)
  have d: "m_objectMaterials (new_SceneManager None) = []"
    by (simp add: new_SceneManager_def)
  show ?thesis
    using C10_null_shader_manager[OF a, of "(2, 1, 1)" 0 90 0 "(1, 0, 0)" 1 0 0 1 "''Floor''" 3 3 "''floorMat''" copper]
      C10_null_shader_manager[OF b, of "(2, 1, 1)" 0 90 0 "(1, 0, 0)" 1 0 0 1 "''Floor''" 3 3 "''floorMat''" copper]
      c d
    by simp
qed

section \<open>Loading textures\<close>

text \<open>
  Claim C6. An image whose channel count is neither 3 nor 4 makes the load return false
  and leaves the registry as it was: the array, the count, the tags in use and every
  slot lookup are unchanged.
\<close>

theorem C6_unsupported_channels_rejected:
  assumes "stbi_load filename = Some img"
    and "colorChannels img \<noteq> 3" and "colorChannels img \<noteq> 4"
  shows "\<exists>s'. CreateGLTexture stbi_load filename tag' s = Inr (False, s')
    \<and> m_textureIDs s' = m_textureIDs s
    \<and> m_loadedTextures s' = m_loadedTextures s
    \<and> registered_tags s' = registered_tags s
    \<and> (\<forall>t. FindTextureSlot t s' = FindTextureSlot t s)"
  using assms
  by (simp add: CreateGLTexture_def Let_def registered_tags_def FindTextureSlot_def
           split: prod.splits)

text \<open>A two-channel image offered to the constructor's empty registry.\<close>

theorem C6_unsupported_channels_rejected_witness:
  "\<exists>s'. CreateGLTexture grey_alpha_files ''textures/grey.png'' ''Grey'' (new_SceneManager None)
           = Inr (False, s')
    \<and> m_textureIDs s' = m_textureIDs (new_SceneManager None)
    \<and> m_loadedTextures s' = 0
    \<and> registered_tags s' = []
    \<and> (\<forall>t. FindTextureSlot t s' = FindTextureSlot t (new_SceneManager None))"
proof -
  have a: "grey_alpha_files ''textures/grey.png'' = Some \<lparr>width = 2, height = 2, colorChannels = 2\<rparr>"
    by (simp add: grey_alpha_files_def)
  have b: "colorChannels \<lparr>width = 2, height = 2, colorChannels = 2\<rparr> \<noteq> 3"
    and c: "colorChannels \<lparr>width = 2, height = 2, colorChannels = 2\<rparr> \<noteq> 4" by simp_all
  have d: "m_loadedTextures (new_SceneManager None) = 0" "registered_tags (new_SceneManager None) = []"
    by (simp_all add: new_SceneManager_def registered_tags_def)
  show ?thesis
    using C6_unsupported_channels_rejected[of grey_alpha_files "''textures/grey.png''"
        "\<lparr>width = 2, height = 2, colorChannels = 2\<rparr>" "''Grey''" "new_SceneManager None"] a b c d
    by simp
qed

section \<open>Slots and lookups\<close>

lemma registered_tags_length:
  "registry_ok s \<Longrightarrow> length (registered_tags s) = m_loadedTextures s"
  by (simp add: registered_tags_def registry_ok_def)

lemma registered_tags_nth:
  "registry_ok s \<Longrightarrow> j < m_loadedTextures s \<Longrightarrow>
   registered_tags s ! j = tag (m_textureIDs s ! j)"
  by (simp add: registered_tags_def registry_ok_def)

lemma loads_from_empty:
  assumes "m_loadedTextures s0 = 0"
    and "CreateGLTextures stbi_load loads s0 = Inr (oks, s)"
    and "\<forall>b\<in>set oks. b"
  shows "registry_ok s \<and> registered_tags s = map snd loads"
proof -
  have "registry_ok s0" "registered_tags s0 = []"
    using assms(1) by (simp_all add: registry_ok_def registered_tags_def)
  then show ?thesis
    using CreateGLTextures_all_ok[OF assms(2) assms(3)] by simp
qed

text \<open>
  Claim C5, as amended. For every run of successful texture loads with pairwise distinct
  tags, starting from an empty registry, the i-th loaded texture sits in slot i (the size
  of the registry when it was loaded), the count is the number of loads, and
  \<open>FindTextureSlot\<close> on its tag returns i.
\<close>

theorem C5_slots_follow_load_order:
  assumes "m_loadedTextures s0 = 0"
    and "CreateGLTextures stbi_load loads s0 = Inr (oks, s)"
    and "\<forall>b\<in>set oks. b"
    and "distinct (map snd loads)"
    and "i < length loads"
  shows "m_loadedTextures s = length loads
       \<and> tag (m_textureIDs s ! i) = snd (loads ! i)
       \<and> FindTextureSlot (snd (loads ! i)) s = Inr (int i)"
proof -
  from loads_from_empty[OF assms(1-3)]
  have ok: "registry_ok s" and tags: "registered_tags s = map snd loads" by simp_all
  have cnt: "m_loadedTextures s = length loads"
    using registered_tags_length[OF ok] tags by simp
  have at_i: "registered_tags s ! i = snd (loads ! i)"
    using tags assms(5) by simp
  have slot: "tag (m_textureIDs s ! i) = snd (loads ! i)"
    using registered_tags_nth[OF ok, of i] cnt assms(5) at_i by simp
  have first: "\<forall>j<i. registered_tags s ! j \<noteq> snd (loads ! i)"
  proof (intro allI impI)
    fix j assume "j < i"
    then have "j < length (map snd loads)" "i < length (map snd loads)" "j \<noteq> i"
      using assms(5) by simp_all
    then have "map snd loads ! j \<noteq> map snd loads ! i"
      using assms(4) by (metis nth_eq_iff_index_eq)
    then show "registered_tags s ! j \<noteq> snd (loads ! i)"
      using tags assms(5) by simp
  qed
  have "i < length (registered_tags s)" using tags assms(5) by simp
  from FindTextureSlot_first[OF ok this at_i first] cnt slot show ?thesis by simp
qed

lemma abc_scene:
  "CreateGLTextures rgb_files abc_loads (new_SceneManager p) =
     Inr ([True, True, True], loaded_scene rgb_files abc_loads (new_SceneManager p))"
  using loaded_scene_rgb[of "new_SceneManager p" abc_loads]
  by (simp add: new_SceneManager_def abc_loads_def)

text \<open>Loading the tags A, B and C in that order gives the slots 0, 1 and 2.\<close>

theorem C5_slots_follow_load_order_witness:
  "m_loadedTextures (loaded_scene rgb_files abc_loads (new_SceneManager None)) = 3
   \<and> FindTextureSlot ''A'' (loaded_scene rgb_files abc_loads (new_SceneManager None)) = Inr 0
   \<and> FindTextureSlot ''B'' (loaded_scene rgb_files abc_loads (new_SceneManager None)) = Inr 1
   \<and> FindTextureSlot ''C'' (loaded_scene rgb_files abc_loads (new_SceneManager None)) = Inr 2"
proof -
  have start: "m_loadedTextures (new_SceneManager None) = 0"
    by (simp add: new_SceneManager_def)
  have all: "\<forall>b\<in>set [True, True, True]. b" by simp
  have dist: "distinct (map snd abc_loads)" by (simp add: abc_loads_def)
  have "0 < length abc_loads" "1 < length abc_loads" "2 < length abc_loads"
    by (simp_all add: abc_loads_def)
  from this[THEN C5_slots_follow_load_order[OF start abc_scene all dist]]
  show ?thesis by (simp add: abc_loads_def)
qed

lemma aa_scene:
  "CreateGLTextures rgb_files aa_loads (new_SceneManager p) =
     Inr ([True, True], loaded_scene rgb_files aa_loads (new_SceneManager p))"
  using loaded_scene_rgb[of "new_SceneManager p" aa_loads]
  by (simp add: new_SceneManager_def aa_loads_def)

text \<open>
  Claim C5 as first stated, for every run of successful loads, fails when a tag repeats:
  after two successful loads under the tag A the second texture sits in slot 1, and
  \<open>FindTextureSlot\<close> on its tag returns 0, the first match of the scan.
\<close>

theorem C5_duplicate_tag_counterexample:
  "CreateGLTextures rgb_files aa_loads (new_SceneManager None) =
     Inr ([True, True], loaded_scene rgb_files aa_loads (new_SceneManager None))
   \<and> m_loadedTextures (loaded_scene rgb_files aa_loads (new_SceneManager None)) = 2
   \<and> tag (m_textureIDs (loaded_scene rgb_files aa_loads (new_SceneManager None)) ! 1) = ''A''
   \<and> FindTextureSlot ''A'' (loaded_scene rgb_files aa_loads (new_SceneManager None)) = Inr 0
   \<and> FindTextureSlot ''A'' (loaded_scene rgb_files aa_loads (new_SceneManager None)) \<noteq> Inr 1"
proof -
  let ?s = "loaded_scene rgb_files aa_loads (new_SceneManager None)"
  have start: "m_loadedTextures (new_SceneManager None) = 0"
    by (simp add: new_SceneManager_def)
  have all: "\<forall>b\<in>set [True, True]. b" by simp
  from loads_from_empty[OF start aa_scene all]
  have ok: "registry_ok ?s" and tags: "registered_tags ?s = [''A'', ''A'']"
    by (simp_all add: aa_loads_def)
  have cnt: "m_loadedTextures ?s = 2"
    using registered_tags_length[OF ok] tags by simp
  have second: "tag (m_textureIDs ?s ! 1) = ''A''"
    using registered_tags_nth[OF ok, of 1] cnt tags by simp
  have found: "FindTextureSlot ''A'' ?s = Inr 0"
    using FindTextureSlot_first[OF ok, of 0 "''A''"] tags by simp
  show ?thesis
    using aa_scene cnt second found by simp
qed

text \<open>
  Claim C7. For a tag that no entry in use carries, \<open>FindTextureSlot\<close> returns -1 and
  does not fault, and \<open>SetShaderTexture\<close> returns normally: with a shader manager it
  sets \<open>bUseTexture\<close> to true and writes -1 to the sampler uniform \<open>objectTexture\<close>.
\<close>

theorem C7_lookup_miss_sentinel:
  assumes "registry_ok s" and "textureTag \<notin> set (registered_tags s)"
  shows "FindTextureSlot textureTag s = Inr (- 1)
    \<and> SetShaderTexture textureTag s =
        (case m_pShaderManager s of
           None \<Rightarrow> Inr s
         | Some sh \<Rightarrow>
             Inr (s\<lparr>m_pShaderManager :=
                    Some (sh(''bUseTexture'' \<mapsto> UInt 1, ''objectTexture'' \<mapsto> USampler2D (- 1)))\<rparr>))"
  using FindTextureSlot_absent[OF assms]
  by (simp add: SetShaderTexture_def setIntValue_def setSampler2DValue_def
        g_UseTextureName_def g_TextureValueName_def split: option.splits)

text \<open>The registry holding A, B and C, asked for a tag it does not hold.\<close>

theorem C7_lookup_miss_sentinel_witness:
  "FindTextureSlot ''nonexistent''
      (loaded_scene rgb_files abc_loads (new_SceneManager (Some Map.empty))) = Inr (- 1)
   \<and> SetShaderTexture ''nonexistent''
      (loaded_scene rgb_files abc_loads (new_SceneManager (Some Map.empty))) =
       Inr ((loaded_scene rgb_files abc_loads (new_SceneManager (Some Map.empty)))
            \<lparr>m_pShaderManager :=
               Some [''bUseTexture'' \<mapsto> UInt 1, ''objectTexture'' \<mapsto> USampler2D (- 1)]\<rparr>)"
proof -
  let ?s = "loaded_scene rgb_files abc_loads (new_SceneManager (Some Map.empty))"
  have start: "m_loadedTextures (new_SceneManager (Some Map.empty)) = 0"
    by (simp add: new_SceneManager_def)
  have all: "\<forall>b\<in>set [True, True, True]. b" by simp
  from loads_from_empty[OF start abc_scene all]
  have ok: "registry_ok ?s" and tags: "registered_tags ?s = [''A'', ''B'', ''C'']"
    by (simp_all add: abc_loads_def)
  have absent: "''nonexistent'' \<notin> set (registered_tags ?s)"
    using tags by simp
  have sh: "m_pShaderManager ?s = Some Map.empty"
    using CreateGLTextures_frame[OF abc_scene] by (simp add: new_SceneManager_def)
  show ?thesis
    using C7_lookup_miss_sentinel[OF ok absent] sh by simp
qed

section \<open>Releasing textures\<close>

lemma CreateGLTexture_rgb_files:
  "m_loadedTextures s < length (m_textureIDs s) \<Longrightarrow>
   CreateGLTexture rgb_files fn t s =
     Inr (True,
          s\<lparr>m_textureIDs := (m_textureIDs s)[m_loadedTextures s :=
                 \<lparr>ID = Suc (fold max (texture_names (gl s)) 0), tag = t\<rparr>],
            m_loadedTextures := m_loadedTextures s + 1,
            gl := uploaded GL_RGB8 \<lparr>width = 2, height = 2, colorChannels = 3\<rparr> (gl s)\<rparr>)"
  using CreateGLTexture_supported[where stbi_load = rgb_files and fn = fn and s = s and t = t
      and img = "\<lparr>width = 2, height = 2, colorChannels = 3\<rparr>"]
  by (simp add: rgb_files_def)

lemma DestroyGLTextures_loop_keeps:
  "DestroyGLTextures_loop i s = Inr s' \<Longrightarrow>
   m_loadedTextures s' = m_loadedTextures s
   \<and> map tag (m_textureIDs s') = map tag (m_textureIDs s)
   \<and> texture_objects (gl s') = texture_objects (gl s)"
proof (induction i s rule: DestroyGLTextures_loop.induct)
  case (1 i s)
  show ?case
  proof (cases "i < m_loadedTextures s \<and> i < length (m_textureIDs s)")
    case True
    obtain n g where gen: "glGenTextures (gl s) = (n, g)" by (cases "glGenTextures (gl s)")
    let ?s1 = "s\<lparr>m_textureIDs := (m_textureIDs s)[i := (m_textureIDs s ! i)\<lparr>ID := n\<rparr>], gl := g\<rparr>"
    have run: "DestroyGLTextures_loop (i + 1) ?s1 = Inr s'"
      using "1.prems" True gen by (subst (asm) DestroyGLTextures_loop.simps) simp
    have ih: "m_loadedTextures s' = m_loadedTextures ?s1
       \<and> map tag (m_textureIDs s') = map tag (m_textureIDs ?s1)
       \<and> texture_objects (gl s') = texture_objects (gl ?s1)"
      using "1.IH" True gen[symmetric] run by auto
    have objs: "texture_objects g = texture_objects (gl s)"
      using gen by (auto simp: glGenTextures_def Let_def)
    have tags: "map tag ((m_textureIDs s)[i := (m_textureIDs s ! i)\<lparr>ID := n\<rparr>]) = map tag (m_textureIDs s)"
      using True by (simp add: map_update list_update_same_conv)
    show ?thesis using ih objs tags by simp
  next
    case False
    then show ?thesis
      using "1.prems" by (subst (asm) DestroyGLTextures_loop.simps) (auto split: if_splits)
  qed
qed

lemma DestroyGLTextures_loop_returns:
  "registry_ok s \<Longrightarrow> \<exists>s'. DestroyGLTextures_loop i s = Inr s'"
proof (induction "m_loadedTextures s - i" arbitrary: i s)
  case 0
  then show ?case by (subst DestroyGLTextures_loop.simps) simp
next
  case (Suc k)
  then have lt: "i < m_loadedTextures s" by simp
  then have len: "i < length (m_textureIDs s)"
    using Suc.prems by (simp add: registry_ok_def)
  obtain n g where gen: "glGenTextures (gl s) = (n, g)" by (cases "glGenTextures (gl s)")
  let ?s1 = "s\<lparr>m_textureIDs := (m_textureIDs s)[i := (m_textureIDs s ! i)\<lparr>ID := n\<rparr>], gl := g\<rparr>"
  have "k = m_loadedTextures ?s1 - (i + 1)" "registry_ok ?s1"
    using Suc.hyps(2) Suc.prems by (simp_all add: registry_ok_def)
  from Suc.hyps(1)[OF this] obtain s' where "DestroyGLTextures_loop (i + 1) ?s1 = Inr s'" ..
  then show ?case
    using lt len gen by (subst DestroyGLTextures_loop.simps) simp
qed

lemma DestroyGLTextures_keeps:
  assumes "registry_ok s"
  shows "\<exists>s'. DestroyGLTextures s = Inr s'
    \<and> m_loadedTextures s' = m_loadedTextures s
    \<and> registered_tags s' = registered_tags s
    \<and> texture_objects (gl s') = texture_objects (gl s)"
proof -
  from DestroyGLTextures_loop_returns[OF assms, of 0]
  obtain s' where run: "DestroyGLTextures_loop 0 s = Inr s'" ..
  from DestroyGLTextures_loop_keeps[OF run]
  have "m_loadedTextures s' = m_loadedTextures s"
    "map tag (m_textureIDs s') = map tag (m_textureIDs s)"
    "texture_objects (gl s') = texture_objects (gl s)" by simp_all
  then show ?thesis
    using run by (simp add: DestroyGLTextures_def registered_tags_def take_map[symmetric])
qed


lemma ab_scene_eq:
  "ab_scene =
     \<lparr>m_pShaderManager = None,
      m_textureIDs = (replicate 16 \<lparr>ID = 0, tag = []\<rparr>)
         [0 := \<lparr>ID = 1, tag = ''A''\<rparr>, 1 := \<lparr>ID = 2, tag = ''B''\<rparr>],
      m_loadedTextures = 2,
      m_objectMaterials = [],
      gl = uploaded GL_RGB8 \<lparr>width = 2, height = 2, colorChannels = 3\<rparr>
             (uploaded GL_RGB8 \<lparr>width = 2, height = 2, colorChannels = 3\<rparr> default_gl_context)\<rparr>"
  by (simp add: ab_scene_def loaded_scene_def ab_loads_def and_then_def CreateGLTexture_rgb_files
        new_SceneManager_def default_gl_context_def uploaded_def Let_def numeral_2_eq_2)

lemma ab_destroy_eq:
  "DestroyGLTextures ab_scene =
     Inr \<lparr>m_pShaderManager = None,
      m_textureIDs = (replicate 16 \<lparr>ID = 0, tag = []\<rparr>)
         [0 := \<lparr>ID = 3, tag = ''A''\<rparr>, 1 := \<lparr>ID = 4, tag = ''B''\<rparr>],
      m_loadedTextures = 2,
      m_objectMaterials = [],
      gl = (uploaded GL_RGB8 \<lparr>width = 2, height = 2, colorChannels = 3\<rparr>
             (uploaded GL_RGB8 \<lparr>width = 2, height = 2, colorChannels = 3\<rparr> default_gl_context))
           \<lparr>texture_names := [4, 3, 2, 1]\<rparr>\<rparr>"
  by (simp add: ab_scene_eq DestroyGLTextures_def DestroyGLTextures_loop.simps glGenTextures_def
        uploaded_def default_gl_context_def Let_def numeral_2_eq_2 numeral_3_eq_3 eval_nat_numeral)

lemma ab_released_eq:
  "ab_released =
     \<lparr>m_pShaderManager = None,
      m_textureIDs = (replicate 16 \<lparr>ID = 0, tag = []\<rparr>)
         [0 := \<lparr>ID = 3, tag = ''A''\<rparr>, 1 := \<lparr>ID = 4, tag = ''B''\<rparr>],
      m_loadedTextures = 2,
      m_objectMaterials = [],
      gl = (uploaded GL_RGB8 \<lparr>width = 2, height = 2, colorChannels = 3\<rparr>
             (uploaded GL_RGB8 \<lparr>width = 2, height = 2, colorChannels = 3\<rparr> default_gl_context))
           \<lparr>texture_names := [4, 3, 2, 1]\<rparr>\<rparr>"
  unfolding ab_released_def ab_destroy_eq by (simp add: returned_def)

lemma abc_reloaded_run:
  "CreateGLTexture rgb_files ''textures/c.jpg'' ''C'' ab_released = Inr (True, abc_reloaded)"
  by (simp add: abc_reloaded_def loaded_scene_def and_then_def ab_released_eq CreateGLTexture_rgb_files)

lemma ab_loads_run:
  "CreateGLTextures rgb_files ab_loads (new_SceneManager None) = Inr ([True, True], ab_scene)"
    using loaded_scene_rgb[of "new_SceneManager None" ab_loads]
    by (simp add: ab_scene_def new_SceneManager_def ab_loads_def)

lemma ab_scene_resident:
  "ID (m_textureIDs ab_scene ! 0) = 1 \<and> ID (m_textureIDs ab_scene ! 1) = 2
     \<and> resident (gl ab_scene) 1 \<and> resident (gl ab_scene) 2"
    by (simp add: ab_scene_eq resident_def uploaded_def default_gl_context_def
          new_texture_object_def Let_def)

lemma ab_released_resident:
  "texture_objects (gl ab_released) = texture_objects (gl ab_scene)
     \<and> resident (gl ab_released) 1 \<and> resident (gl ab_released) 2
     \<and> ID (m_textureIDs ab_released ! 0) = 3 \<and> ID (m_textureIDs ab_released ! 1) = 4
     \<and> \<not> resident (gl ab_released) 3 \<and> \<not> resident (gl ab_released) 4
     \<and> m_loadedTextures ab_released = 2"
    by (simp add: ab_released_eq ab_scene_eq resident_def uploaded_def
          default_gl_context_def new_texture_object_def Let_def)

lemma abc_reloaded_slots:
  "m_loadedTextures abc_reloaded = 3
   \<and> m_textureIDs abc_reloaded = (replicate 16 \<lparr>ID = 0, tag = []\<rparr>)
         [0 := \<lparr>ID = 3, tag = ''A''\<rparr>, 1 := \<lparr>ID = 4, tag = ''B''\<rparr>, 2 := \<lparr>ID = 5, tag = ''C''\<rparr>]"
  by (simp add: abc_reloaded_def loaded_scene_def and_then_def ab_released_eq
        CreateGLTexture_rgb_files uploaded_def default_gl_context_def Let_def eval_nat_numeral)

text \<open>
  Claim C4 says that \<open>DestroyGLTextures\<close> invalidates the registered textures and that
  the next load starts again at slot 0. Evaluated on the registry holding A and B: the
  two texture objects stay resident under their names 1 and 2, the entries are given two
  freshly generated names with nothing behind them, the count stays 2 and lookups still
  answer, and the load of C that follows receives slot 2.
\<close>

theorem C4_release_keeps_textures_and_count:
  "CreateGLTextures rgb_files ab_loads (new_SceneManager None) = Inr ([True, True], ab_scene)
   \<and> ID (m_textureIDs ab_scene ! 0) = 1 \<and> ID (m_textureIDs ab_scene ! 1) = 2
   \<and> resident (gl ab_scene) 1 \<and> resident (gl ab_scene) 2
   \<and> DestroyGLTextures ab_scene = Inr ab_released
   \<and> texture_objects (gl ab_released) = texture_objects (gl ab_scene)
   \<and> resident (gl ab_released) 1 \<and> resident (gl ab_released) 2
   \<and> ID (m_textureIDs ab_released ! 0) = 3 \<and> ID (m_textureIDs ab_released ! 1) = 4
   \<and> \<not> resident (gl ab_released) 3 \<and> \<not> resident (gl ab_released) 4
   \<and> m_loadedTextures ab_released = 2
   \<and> FindTextureSlot ''B'' ab_released = Inr 1
   \<and> CreateGLTexture rgb_files ''textures/c.jpg'' ''C'' ab_released = Inr (True, abc_reloaded)
   \<and> FindTextureSlot ''C'' abc_reloaded = Inr 2"
proof -
  have release: "DestroyGLTextures ab_scene = Inr ab_released"
    unfolding ab_released_eq by (rule ab_destroy_eq)
  have slotB: "FindTextureSlot ''B'' ab_released = Inr 1"
    by (simp add: ab_released_eq FindTextureSlot_def FindTextureSlot_loop.simps)
  have slotC: "FindTextureSlot ''C'' abc_reloaded = Inr 2"
    by (simp add: abc_reloaded_slots FindTextureSlot_def FindTextureSlot_loop.simps numeral_2_eq_2)
  show ?thesis
    using ab_loads_run ab_scene_resident release ab_released_resident slotB abc_reloaded_run slotC
    by simp
qed

section \<open>Scene preparation and the material tags\<close>

lemma BindGLTextures_loop_frame:
  "BindGLTextures_loop i s = Inr s' \<Longrightarrow>
   m_pShaderManager s' = m_pShaderManager s \<and> m_objectMaterials s' = m_objectMaterials s
   \<and> m_textureIDs s' = m_textureIDs s \<and> m_loadedTextures s' = m_loadedTextures s"
proof (induction i s rule: BindGLTextures_loop.induct)
  case (1 i s)
  show ?case
  proof (cases "i < m_loadedTextures s \<and> i < length (m_textureIDs s)")
    case True
    let ?s1 = "s\<lparr>gl := glBindTexture (ID (m_textureIDs s ! i)) (glActiveTexture i (gl s))\<rparr>"
    have run: "BindGLTextures_loop (i + 1) ?s1 = Inr s'"
      using "1.prems" True by (subst (asm) BindGLTextures_loop.simps) simp
    then show ?thesis
      using "1.IH" True by auto
  next
    case False
    then show ?thesis
      using "1.prems" by (subst (asm) BindGLTextures_loop.simps) (auto split: if_splits)
  qed
qed

lemma BindGLTextures_loop_returns:
  "registry_ok s \<Longrightarrow> \<exists>s'. BindGLTextures_loop i s = Inr s'"
proof (induction "m_loadedTextures s - i" arbitrary: i s)
  case 0
  then show ?case by (subst BindGLTextures_loop.simps) simp
next
  case (Suc k)
  then have lt: "i < m_loadedTextures s" by simp
  then have len: "i < length (m_textureIDs s)"
    using Suc.prems by (simp add: registry_ok_def)
  let ?s1 = "s\<lparr>gl := glBindTexture (ID (m_textureIDs s ! i)) (glActiveTexture i (gl s))\<rparr>"
  have "k = m_loadedTextures ?s1 - (i + 1)" "registry_ok ?s1"
    using Suc.hyps(2) Suc.prems by (simp_all add: registry_ok_def)
  from Suc.hyps(1)[OF this] obtain s' where "BindGLTextures_loop (i + 1) ?s1 = Inr s'" ..
  then show ?case
    using lt len by (subst BindGLTextures_loop.simps) simp
qed

lemma CreateGLTexture_returns:
  "m_loadedTextures s < length (m_textureIDs s) \<Longrightarrow>
   \<exists>ok s'. CreateGLTexture stbi_load fn t s = Inr (ok, s')
     \<and> m_loadedTextures s' \<le> m_loadedTextures s + 1
     \<and> length (m_textureIDs s') = length (m_textureIDs s)"
  by (auto simp: CreateGLTexture_def CreateGLTexture_register_def Let_def
           split: option.splits prod.splits)

lemma CreateGLTextures_returns:
  "m_loadedTextures s + length loads \<le> length (m_textureIDs s) \<Longrightarrow>
   \<exists>oks s'. CreateGLTextures stbi_load loads s = Inr (oks, s') \<and> registry_ok s'"
proof (induction loads arbitrary: s)
  case Nil
  then show ?case by (simp add: registry_ok_def)
next
  case (Cons a loads)
  obtain fn t where a: "a = (fn, t)" by (cases a)
  have "m_loadedTextures s < length (m_textureIDs s)" using Cons.prems by simp
  from CreateGLTexture_returns[OF this, of stbi_load fn t]
  obtain ok s1 where one: "CreateGLTexture stbi_load fn t s = Inr (ok, s1)"
    and cnt: "m_loadedTextures s1 \<le> m_loadedTextures s + 1"
    and len: "length (m_textureIDs s1) = length (m_textureIDs s)" by blast
  have "m_loadedTextures s1 + length loads \<le> length (m_textureIDs s1)"
    using Cons.prems cnt len by simp
  from Cons.IH[OF this] obtain oks s' where
    "CreateGLTextures stbi_load loads s1 = Inr (oks, s')" "registry_ok s'" by blast
  then show ?case
    using one by (simp add: a and_then_def)
qed

lemma LoadSceneTextures_frame:
  assumes "LoadSceneTextures stbi_load s = Inr s'"
  shows "m_pShaderManager s' = m_pShaderManager s \<and> m_objectMaterials s' = m_objectMaterials s"
proof -
  from assms obtain oks s1 where
      loads: "CreateGLTextures stbi_load scene_textures
                (s\<lparr>gl := glPixelStorei_UNPACK_ALIGNMENT 1 (gl s)\<rparr>) = Inr (oks, s1)"
      and bind: "BindGLTextures_loop 0 s1 = Inr s'"
    by (auto simp: LoadSceneTextures_def BindGLTextures_def and_then_def split: sum.splits)
  show ?thesis
    using CreateGLTextures_frame[OF loads] BindGLTextures_loop_frame[OF bind] by simp
qed

lemma LoadSceneTextures_returns:
  assumes "m_loadedTextures s + 8 \<le> length (m_textureIDs s)"
  shows "\<exists>s'. LoadSceneTextures stbi_load s = Inr s'"
proof -
  let ?s0 = "s\<lparr>gl := glPixelStorei_UNPACK_ALIGNMENT 1 (gl s)\<rparr>"
  have "m_loadedTextures ?s0 + length scene_textures \<le> length (m_textureIDs ?s0)"
    using assms by (simp add: scene_textures_def)
  from CreateGLTextures_returns[OF this, of stbi_load]
  obtain oks s1 where loads: "CreateGLTextures stbi_load scene_textures ?s0 = Inr (oks, s1)"
    and ok: "registry_ok s1" by blast
  from BindGLTextures_loop_returns[OF ok, of 0]
  obtain s' where "BindGLTextures_loop 0 s1 = Inr s'" ..
  then show ?thesis
    using loads by (simp add: LoadSceneTextures_def BindGLTextures_def and_then_def)
qed

lemma PrepareScene_materials:
  assumes "PrepareScene stbi_load s = Inr s'"
  shows "m_objectMaterials s' = m_objectMaterials s @ scene_materials @ scene_materials"
proof -
  from assms obtain s1 where load: "LoadSceneTextures stbi_load s = Inr s1"
    by (auto simp: PrepareScene_def and_then_def split: sum.splits)
  have mats: "m_objectMaterials s1 = m_objectMaterials s"
    using LoadSceneTextures_frame[OF load] by simp
  show ?thesis
    using assms load mats
    by (auto simp: PrepareScene_def and_then_def SetupSceneLights_def DefineObjectMaterials_def
          scene_materials_def split: option.splits)
qed

lemma PrepareScene_returns:
  assumes "m_pShaderManager s = Some sh" and "m_loadedTextures s + 8 \<le> length (m_textureIDs s)"
  shows "\<exists>s'. PrepareScene stbi_load s = Inr s'"
proof -
  from LoadSceneTextures_returns[OF assms(2), of stbi_load]
  obtain s1 where load: "LoadSceneTextures stbi_load s = Inr s1" ..
  have "m_pShaderManager s1 = Some sh"
    using LoadSceneTextures_frame[OF load] assms(1) by simp
  then show ?thesis
    using load
    by (simp add: PrepareScene_def and_then_def SetupSceneLights_def DefineObjectMaterials_def)
qed

text \<open>
  Claim C9 says that no two entries of the material registry carry the same tag after
  \<open>PrepareScene\<close>. \<open>PrepareScene\<close> calls \<open>DefineObjectMaterials\<close> twice, so from the
  constructor's state it returns with eighteen entries: each of the nine tags twice,
  whatever the image files hold.
\<close>

theorem C9_PrepareScene_repeats_material_tags:
  "PrepareScene stbi_load (new_SceneManager (Some Map.empty)) = Inr (prepared_scene stbi_load)
   \<and> map materialTag (m_objectMaterials (prepared_scene stbi_load)) =
       [''copper'', ''plasticBlack'', ''glass'', ''floorMat'', ''wallMat'', ''zebraMat'',
        ''mirrorMat'', ''chevronMat'', ''boxFurMat'',
        ''copper'', ''plasticBlack'', ''glass'', ''floorMat'', ''wallMat'', ''zebraMat'',
        ''mirrorMat'', ''chevronMat'', ''boxFurMat'']
   \<and> \<not> distinct (map materialTag (m_objectMaterials (prepared_scene stbi_load)))"
proof -
  have sh: "m_pShaderManager (new_SceneManager (Some Map.empty)) = Some Map.empty"
    and room: "m_loadedTextures (new_SceneManager (Some Map.empty)) + 8
               \<le> length (m_textureIDs (new_SceneManager (Some Map.empty)))"
    by (simp_all add: new_SceneManager_def)
  from PrepareScene_returns[OF sh room, of stbi_load]
  obtain s' where run: "PrepareScene stbi_load (new_SceneManager (Some Map.empty)) = Inr s'" ..
  then have eq: "prepared_scene stbi_load = s'"
    by (simp add: prepared_scene_def returned_def)
  have mats: "m_objectMaterials s' = scene_materials @ scene_materials"
    using PrepareScene_materials[OF run] by (simp add: new_SceneManager_def)
  have tags: "map materialTag (m_objectMaterials s') =
       [''copper'', ''plasticBlack'', ''glass'', ''floorMat'', ''wallMat'', ''zebraMat'',
        ''mirrorMat'', ''chevronMat'', ''boxFurMat'',
        ''copper'', ''plasticBlack'', ''glass'', ''floorMat'', ''wallMat'', ''zebraMat'',
        ''mirrorMat'', ''chevronMat'', ''boxFurMat'']"
    by (simp add: mats scene_materials_def copper_def plasticBlack_def glass_def floorMat_def
          wallMat_def zebraMat_def mirrorMat_def chevronMat_def boxFurMat_def)
  have "\<not> distinct (map materialTag (m_objectMaterials s'))"
    unfolding tags by simp
  then show ?thesis
    using run eq tags by simp
qed

section \<open>Pushing a material whose tag is not defined\<close>

lemma FindMaterial_loop_miss:
  "(\<forall>j. index \<le> j \<and> j < length mats \<longrightarrow> materialTag (mats ! j) \<noteq> t) \<Longrightarrow>
   FindMaterial_loop mats t index False m = (False, m)"
proof (induction "length mats - index" arbitrary: index)
  case 0
  then show ?case by (simp add: FindMaterial_loop.simps)
next
  case (Suc k)
  then have "index < length mats" by simp
  moreover have "materialTag (mats ! index) \<noteq> t"
    using Suc.prems calculation by simp
  moreover have "FindMaterial_loop mats t (index + 1) False m = (False, m)"
    using Suc by simp
  ultimately show ?case
    by (subst FindMaterial_loop.simps) simp
qed

lemma FindMaterial_miss:
  assumes "m_objectMaterials s \<noteq> []" and "t \<notin> materialTag ` set (m_objectMaterials s)"
  shows "FindMaterial t m s = (True, m)"
proof -
  have "\<forall>j. 0 \<le> j \<and> j < length (m_objectMaterials s) \<longrightarrow> materialTag (m_objectMaterials s ! j) \<noteq> t"
    using assms(2) by (metis image_eqI nth_mem)
  then have "FindMaterial_loop (m_objectMaterials s) t 0 False m = (False, m)"
    by (rule FindMaterial_loop_miss)
  then show ?thesis using assms(1) by (simp add: FindMaterial_def)
qed

lemma SetShaderMaterial_miss:
  assumes "m_objectMaterials s \<noteq> []" and "t \<notin> materialTag ` set (m_objectMaterials s)"
    and "m_pShaderManager s = Some sh"
  shows "SetShaderMaterial t uninitialised s =
     Inr (s\<lparr>m_pShaderManager := Some (sh(''material.diffuseColor'' \<mapsto> UVec3 (diffuseColor uninitialised),
        ''material.specularColor'' \<mapsto> UVec3 (specularColor uninitialised),
        ''material.shininess'' \<mapsto> UFloat (shininess uninitialised)))\<rparr>)"
  using assms
  by (simp add: SetShaderMaterial_def FindMaterial_miss setVec3Value_def setFloatValue_def)

lemma copper_pushed_run:
  "SetShaderMaterial ''copper'' uninitialised
     (DefineObjectMaterials (new_SceneManager (Some Map.empty))) = Inr copper_pushed"
  by (simp add: SetShaderMaterial_def FindMaterial_def FindMaterial_loop.simps
        DefineObjectMaterials_def new_SceneManager_def copper_def copper_pushed_def
        material_uniforms_def setVec3Value_def setFloatValue_def)

text \<open>
  Claim C8 says that a push of a tag that matches no entry of a registry with entries
  leaves the material uniforms as they were. \<open>FindMaterial\<close> returns true for such a
  tag and leaves its output parameter alone, so \<open>SetShaderMaterial\<close> writes the content
  of its uninitialised local over the three uniforms: after copper was pushed, a push of
  the undefined tag brass replaces the copper values, by zeros when the local holds zeros.
\<close>

theorem C8_missing_tag_overwrites_material:
  "SetShaderMaterial ''copper'' uninitialised
     (DefineObjectMaterials (new_SceneManager (Some Map.empty))) = Inr copper_pushed
   \<and> m_pShaderManager copper_pushed =
       Some (material_uniforms (0.72, 0.43, 0.20) (0.95, 0.70, 0.45) 256)
   \<and> FindMaterial ''brass'' uninitialised copper_pushed = (True, uninitialised)
   \<and> SetShaderMaterial ''brass'' uninitialised copper_pushed =
       Inr (copper_pushed\<lparr>m_pShaderManager :=
              Some (material_uniforms (diffuseColor uninitialised) (specularColor uninitialised)
                      (shininess uninitialised))\<rparr>)
   \<and> SetShaderMaterial ''brass'' blank_material copper_pushed =
       Inr (copper_pushed\<lparr>m_pShaderManager := Some (material_uniforms (0, 0, 0) (0, 0, 0) 0)\<rparr>)
   \<and> material_uniforms (0, 0, 0) (0, 0, 0) 0 \<noteq> material_uniforms (0.72, 0.43, 0.20) (0.95, 0.70, 0.45) 256"
proof -
  have mats: "m_objectMaterials copper_pushed \<noteq> []"
    and absent: "''brass'' \<notin> materialTag ` set (m_objectMaterials copper_pushed)"
    and sh: "m_pShaderManager copper_pushed =
       Some (material_uniforms (0.72, 0.43, 0.20) (0.95, 0.70, 0.45) 256)"
    by (simp_all add: copper_pushed_def DefineObjectMaterials_def new_SceneManager_def
          copper_def plasticBlack_def glass_def floorMat_def
          wallMat_def zebraMat_def mirrorMat_def chevronMat_def boxFurMat_def)
  have differ: "material_uniforms (0, 0, 0) (0, 0, 0) 0 \<noteq> material_uniforms (0.72, 0.43, 0.20) (0.95, 0.70, 0.45) 256"
  proof
    assume "material_uniforms (0, 0, 0) (0, 0, 0) 0 = material_uniforms (0.72, 0.43, 0.20) (0.95, 0.70, 0.45) 256"
    then have "material_uniforms (0, 0, 0) (0, 0, 0) 0 ''material.shininess''
        = material_uniforms (0.72, 0.43, 0.20) (0.95, 0.70, 0.45) 256 ''material.shininess''"
      by simp
    then show False by (simp add: material_uniforms_def)
  qed
  show ?thesis
    using copper_pushed_run[of uninitialised] sh FindMaterial_miss[OF mats absent, of uninitialised]
      SetShaderMaterial_miss[OF mats absent sh, of uninitialised]
      SetShaderMaterial_miss[OF mats absent sh, of blank_material] differ
    by (simp add: material_uniforms_def blank_material_def)
qed

section \<open>The render passes of a frame\<close>

lemmas pass_defs = run_steps_def RenderScene_def RenderScene_reset_def RenderScene_opaque_def
  RenderScene_glass_shade_def RenderScene_halo_def glEnable_def glDisable_def glBlendFunc_def
  glDepthMask_def glCullFace_def set_bUseLighting_def draw_objects_def

text \<open>
  The reset at the top of the next call brings every flag of the baseline back, blending
  included: the baseline of a frame does not depend on the frame before it.
\<close>

lemma RenderScene_next_baseline:
  "(run_steps RenderScene_reset (RenderScene p))\<lparr>cullFace := c\<rparr> =
   (run_steps RenderScene_reset p)\<lparr>cullFace := c\<rparr>"
  by (simp add: pass_defs)

text \<open>
  Claim C2 says that at the end of \<open>RenderScene\<close> every flag of the pass state is back
  at the value of the opaque baseline that the function sets up at its top. The blend
  factors, the depth write, the depth test, the culling and the lighting are; blending,
  switched off by the reset and on for the glass shade and the halo, is never switched off
  again and is still on when the function returns.
\<close>

theorem C2_blend_left_enabled:
  "blendEnabled (run_steps RenderScene_reset p) = False
   \<and> blendEnabled (RenderScene p) = True
   \<and> blendSrcFactor (RenderScene p) = blendSrcFactor (run_steps RenderScene_reset p)
   \<and> blendDstFactor (RenderScene p) = blendDstFactor (run_steps RenderScene_reset p)
   \<and> depthWriteEnabled (RenderScene p) = depthWriteEnabled (run_steps RenderScene_reset p)
   \<and> depthTestEnabled (RenderScene p) = depthTestEnabled (run_steps RenderScene_reset p)
   \<and> cullEnabled (RenderScene p) = cullEnabled (run_steps RenderScene_reset p)
   \<and> lightingEnabled (RenderScene p) = lightingEnabled (run_steps RenderScene_reset p)
   \<and> RenderScene window_pass_state \<noteq> run_steps RenderScene_reset window_pass_state"
  by (simp add: pass_defs window_pass_state_def)

section \<open>The registry stays well formed\<close>

lemma new_SceneManager_ok:
  "registry_ok (new_SceneManager pShaderManager)"
  by (simp add: registry_ok_def new_SceneManager_def)

lemma CreateGLTexture_keeps_ok:
  "registry_ok s \<Longrightarrow> CreateGLTexture stbi_load fn t s = Inr (ok, s') \<Longrightarrow> registry_ok s'"
  using CreateGLTexture_cases[of stbi_load fn t s ok s']
  by (auto simp: registry_ok_def)

lemma BindGLTextures_keeps_ok:
  "registry_ok s \<Longrightarrow> BindGLTextures s = Inr s' \<Longrightarrow> registry_ok s'"
  using BindGLTextures_loop_frame[of 0 s s']
  by (simp add: registry_ok_def BindGLTextures_def)

lemma DestroyGLTextures_keeps_ok:
  "registry_ok s \<Longrightarrow> DestroyGLTextures s = Inr s' \<Longrightarrow> registry_ok s'"
proof -
  assume ok: "registry_ok s" and run: "DestroyGLTextures s = Inr s'"
  from DestroyGLTextures_loop_keeps[of 0 s s'] run
  have "m_loadedTextures s' = m_loadedTextures s"
    "length (map tag (m_textureIDs s')) = length (map tag (m_textureIDs s))"
    by (simp_all add: DestroyGLTextures_def)
  then show ?thesis using ok by (simp add: registry_ok_def)
qed

end
